theory Spec2Isabelle
  imports
    Complex_Main
    "HOL-Library.Multiset"
    "HOL-Library.Char_ord"
    "HOL-Library.List_Lexorder"
begin

section \<open>Account-transaction aggregation over the Xero endpoints\<close>

text \<open>
  A shallow embedding of \<^verbatim>\<open>src/handlers/list-xero-account-transactions.handler.ts\<close>.

  Conventions of the embedding:
  \<^item> a JavaScript value that may be \<^verbatim>\<open>undefined\<close> or \<^verbatim>\<open>null\<close> is an \<open>option\<close>;
  \<^item> amounts (\<^verbatim>\<open>number\<close>) are exact reals: the rounding of IEEE doubles, NaN and the
    infinities are outside the model;
  \<^item> strings are ASCII \<open>char list\<close>s;
  \<^item> a rejected promise or a thrown exception is the \<open>Inl\<close> of a sum;
  \<^item> the remote API is a script: the response of an endpoint to its \<open>k\<close>-th call, given
    the page asked for. The tenant, the headers and the \<^verbatim>\<open>where\<close> clause are fixed
    before a loop starts and are part of the endpoint;
  \<^item> \<^verbatim>\<open>sleep\<close> appends its duration to a log.
\<close>

subsection \<open>Types\<close>

record AccountTransactionRow =
  date :: string
  source :: string
  contactName :: "string option"
  description :: "string option"
  invoiceNumber :: "string option"
  reference :: "string option"
  debit :: "real option"
  credit :: "real option"
  net :: "real option"
  gross :: "real option"
  vat :: "real option"
  accountCode :: "string option"
  accountName :: "string option"
  relatedAccount :: "string option"

text \<open>The failure payload of the SDK, as far as \<^verbatim>\<open>getRetryAfterMs\<close> reads it.\<close>

record XeroResponse =
  statusCode :: "int option"
  status :: "int option"
  headers :: "(string \<times> string) list option"

record XeroErrorObject =
  response :: "XeroResponse option"
  message :: string

text \<open>
  A thrown value is an object (\<open>ErrObject\<close>), a string that \<^verbatim>\<open>JSON.parse\<close> decodes to
  an object (\<open>ErrJson\<close>), or a string that it rejects or decodes to something with no
  response (\<open>ErrText\<close>). The header values are strings.
\<close>

datatype xero_error =
    ErrObject XeroErrorObject
  | ErrJson XeroErrorObject
  | ErrText string

subsection \<open>Constants\<close>

definition PAGE_SIZE :: nat where
  "PAGE_SIZE = 100"

definition MJ_PAGE_SIZE :: nat where
  "MJ_PAGE_SIZE = 1000"

definition MAX_PAGES :: nat where
  "MAX_PAGES = 50"

definition MAX_RETRIES :: nat where
  "MAX_RETRIES = 5"

definition RETRY_BUFFER_MS :: int where
  "RETRY_BUFFER_MS = 2000"

subsection \<open>JavaScript helpers\<close>

text \<open>Truthiness of a \<^verbatim>\<open>string | undefined\<close>: the empty string is falsy.\<close>

definition truthy :: "string option \<Rightarrow> bool" where
  "truthy v = (case v of None \<Rightarrow> False | Some s \<Rightarrow> s \<noteq> [])"

text \<open>\<^verbatim>\<open>xs?.length\<close> as a condition.\<close>

definition hasLength :: "'a list option \<Rightarrow> bool" where
  "hasLength xs = (case xs of None \<Rightarrow> False | Some ys \<Rightarrow> ys \<noteq> [])"

text \<open>\<^verbatim>\<open>xs.includes(v)\<close> for an array and a value that are both present.\<close>

definition arrayIncludes :: "string list option \<Rightarrow> string option \<Rightarrow> bool" where
  "arrayIncludes xs v =
     (case xs of None \<Rightarrow> False
      | Some ys \<Rightarrow> (case v of None \<Rightarrow> False | Some s \<Rightarrow> s \<in> set ys))"

definition orEmpty :: "string option \<Rightarrow> string" where
  "orEmpty v = (case v of None \<Rightarrow> [] | Some s \<Rightarrow> s)"

definition orZero :: "real option \<Rightarrow> real" where
  "orZero v = (case v of None \<Rightarrow> 0 | Some x \<Rightarrow> x)"

definition orNoItems :: "'a list option \<Rightarrow> 'a list" where
  "orNoItems v = (case v of None \<Rightarrow> [] | Some xs \<Rightarrow> xs)"

definition isWhiteSpace :: "char \<Rightarrow> bool" where
  "isWhiteSpace c = (c \<in> set [CHR '' '', CHR 0x09, CHR 0x0A, CHR 0x0B, CHR 0x0C, CHR 0x0D])"

definition trim :: "string \<Rightarrow> string" where
  "trim s = rev (dropWhile isWhiteSpace (rev (dropWhile isWhiteSpace s)))"

definition isDigit :: "char \<Rightarrow> bool" where
  "isDigit c = (c \<in> set ''0123456789'')"

definition digitValue :: "char \<Rightarrow> int" where
  "digitValue c = int (of_char c) - 48"

text \<open>
  \<^verbatim>\<open>parseInt(s, 10)\<close>: leading white space, an optional sign, then the longest run of
  decimal digits; \<open>None\<close> is NaN.
\<close>

definition parseInt10 :: "string \<Rightarrow> int option" where
  "parseInt10 s =
     (let t = dropWhile isWhiteSpace s;
          sign = (case t of c # _ \<Rightarrow> if c = CHR ''-'' then - 1 else 1 | [] \<Rightarrow> (1::int));
          u = (case t of c # r \<Rightarrow> if c = CHR ''-'' \<or> c = CHR ''+'' then r else t | [] \<Rightarrow> t);
          z = takeWhile isDigit u
      in if z = [] then None
         else Some (sign * foldl (\<lambda>acc c. acc * 10 + digitValue c) 0 z))"

primrec startsWith :: "string \<Rightarrow> string \<Rightarrow> bool" where
  "startsWith s [] = True"
| "startsWith s (c # cs) = (case s of [] \<Rightarrow> False | d # ds \<Rightarrow> d = c \<and> startsWith ds cs)"

text \<open>\<^verbatim>\<open>s.includes(sub)\<close> on strings.\<close>

primrec strIncludes :: "string \<Rightarrow> string \<Rightarrow> bool" where
  "strIncludes [] sub = (sub = [])"
| "strIncludes (c # cs) sub = (startsWith (c # cs) sub \<or> strIncludes cs sub)"

primrec joinWith :: "string \<Rightarrow> string list \<Rightarrow> string" where
  "joinWith sep [] = []"
| "joinWith sep (x # xs) = (if xs = [] then x else x @ sep @ joinWith sep xs)"

subsection \<open>Rate-limited fetch wrapper\<close>

definition parseXeroError :: "xero_error \<Rightarrow> XeroErrorObject option" where
  "parseXeroError error =
     (case error of
        ErrText s \<Rightarrow> None
      | ErrJson obj \<Rightarrow> Some obj
      | ErrObject obj \<Rightarrow> Some obj)"

definition getRetryAfterMs :: "xero_error \<Rightarrow> int option" where
  "getRetryAfterMs error =
     (case parseXeroError error of
        None \<Rightarrow> None
      | Some parsed \<Rightarrow>
         (case response parsed of
            None \<Rightarrow> None
          | Some resp \<Rightarrow>
             if statusCode resp = Some 429 \<or> status resp = Some 429 then
               (let retryAfter = (case headers resp of None \<Rightarrow> None
                                  | Some hs \<Rightarrow> map_of hs ''retry-after'');
                    seconds = (if truthy retryAfter then parseInt10 (orEmpty retryAfter)
                               else Some 60)
                in Some ((case seconds of None \<Rightarrow> 60 | Some n \<Rightarrow> n) * 1000 + RETRY_BUFFER_MS))
             else None))"

text \<open>
  \<^verbatim>\<open>withRetry\<close>: \<open>fn\<close> acts on a remote state; the second component of the world is the
  log of the sleeps, in milliseconds.
\<close>

function withRetry_loop ::
  "('s \<Rightarrow> (xero_error + 'a) \<times> 's) \<Rightarrow> nat \<Rightarrow> 's \<times> int list
     \<Rightarrow> (xero_error + 'a) \<times> 's \<times> int list" where
  "withRetry_loop fn attempt (s, slept) =
     (case fn s of
        (Inr v, s') \<Rightarrow> (Inr v, s', slept)
      | (Inl err, s') \<Rightarrow>
         (case getRetryAfterMs err of
            Some waitMs \<Rightarrow>
              if attempt < MAX_RETRIES
              then withRetry_loop fn (Suc attempt) (s', slept @ [waitMs])
              else (Inl err, s', slept)
          | None \<Rightarrow> (Inl err, s', slept)))"
  by pat_completeness auto
termination
  by (relation "measure (\<lambda>(fn, attempt, w). MAX_RETRIES - attempt)") auto

declare withRetry_loop.simps [simp del]

definition withRetry ::
  "('s \<Rightarrow> (xero_error + 'a) \<times> 's) \<Rightarrow> 's \<times> int list \<Rightarrow> (xero_error + 'a) \<times> 's \<times> int list" where
  "withRetry fn w = withRetry_loop fn 0 w"

subsection \<open>Account matcher\<close>

definition lineMatchesAccount ::
  "string option \<Rightarrow> string option \<Rightarrow> string list option \<Rightarrow> string list option \<Rightarrow> bool" where
  "lineMatchesAccount lineAccountCode lineAccountId filterCodes filterIds =
     (if hasLength filterCodes \<and> truthy lineAccountCode
           \<and> arrayIncludes filterCodes lineAccountCode then True
      else if hasLength filterIds \<and> truthy lineAccountId
           \<and> arrayIncludes filterIds lineAccountId then True
      else \<not> hasLength filterCodes \<and> \<not> hasLength filterIds)"

subsection \<open>Date-range filter and date normalisation\<close>

text \<open>
  A date of the SDK is a \<^verbatim>\<open>Date\<close> object (given by its \<^verbatim>\<open>toISOString()\<close>), a string, or
  anything else.
\<close>

datatype js_date = DateObject string | DateString string | DateOther

definition formatDate :: "js_date \<Rightarrow> string" where
  "formatDate d =
     (case d of
        DateObject isoString \<Rightarrow> take 10 isoString
      | DateString s \<Rightarrow> take 10 s
      | DateOther \<Rightarrow> [])"

subsection \<open>The documents of the remote API\<close>

record LineItem =
  li_accountCode :: "string option"
  li_accountID :: "string option"
  li_lineAmount :: "real option"
  li_taxAmount :: "real option"
  li_description :: "string option"

record Contact =
  contact_name :: "string option"

record Invoice =
  inv_type :: "string option"
  inv_contact :: "Contact option"
  inv_date :: js_date
  inv_lineItems :: "LineItem list option"
  inv_invoiceNumber :: "string option"
  inv_reference :: "string option"

record CreditNote =
  cn_type :: "string option"
  cn_contact :: "Contact option"
  cn_date :: js_date
  cn_lineItems :: "LineItem list option"
  cn_creditNoteNumber :: "string option"
  cn_reference :: "string option"

record BankAccount =
  ba_code :: "string option"
  ba_name :: "string option"
  ba_accountID :: "string option"

record BankTransaction =
  bt_type :: "string option"
  bt_contact :: "Contact option"
  bt_date :: js_date
  bt_bankAccount :: "BankAccount option"
  bt_lineItems :: "LineItem list option"
  bt_reference :: "string option"
  bt_total :: "real option"
  bt_subTotal :: "real option"
  bt_totalTax :: "real option"

record ManualJournalLine =
  jl_accountCode :: "string option"
  jl_accountID :: "string option"
  jl_lineAmount :: "real option"
  jl_taxAmount :: "real option"
  jl_description :: "string option"

record ManualJournal =
  mj_date :: js_date
  mj_journalLines :: "ManualJournalLine list option"
  mj_narration :: "string option"

record Account =
  acct_code :: "string option"
  acct_name :: "string option"

text \<open>\<^verbatim>\<open>doc.contact?.name ?? null\<close>\<close>

definition contactNameOf :: "Contact option \<Rightarrow> string option" where
  "contactNameOf c = (case c of None \<Rightarrow> None | Some k \<Rightarrow> contact_name k)"

subsection \<open>Endpoints\<close>

text \<open>
  An endpoint answers its \<open>k\<close>-th call for a page with a failure or a body whose list may
  be absent. The world of one extractor is the number of calls made so far and the log of
  the sleeps.
\<close>

type_synonym 'a endpoint = "nat \<Rightarrow> nat \<Rightarrow> xero_error + 'a list option"

type_synonym world = "nat \<times> int list"

definition callEndpoint :: "'a endpoint \<Rightarrow> nat \<Rightarrow> nat \<Rightarrow> (xero_error + 'a list option) \<times> nat" where
  "callEndpoint api page k = (api k page, Suc k)"

subsection \<open>Invoices\<close>

definition invoiceLineRow :: "Invoice \<Rightarrow> LineItem \<Rightarrow> AccountTransactionRow" where
  "invoiceLineRow invoice li =
     (let typeStr = orEmpty (inv_type invoice);
          isAccPay = (typeStr = ''ACCPAY'');
          sourceLabel = (if isAccPay then ''Purchase Invoice'' else ''Sales Invoice'');
          lineAmt = orZero (li_lineAmount li);
          netToAccount = (if isAccPay then lineAmt else - lineAmt);
          taxAmt = orZero (li_taxAmount li)
      in \<lparr> date = formatDate (inv_date invoice),
           source = sourceLabel,
           contactName = contactNameOf (inv_contact invoice),
           description = li_description li,
           invoiceNumber = inv_invoiceNumber invoice,
           reference = inv_reference invoice,
           debit = (if netToAccount > 0 then Some netToAccount else None),
           credit = (if netToAccount < 0 then Some \<bar>netToAccount\<bar> else None),
           net = Some lineAmt,
           gross = Some (lineAmt + taxAmt),
           vat = Some taxAmt,
           accountCode = li_accountCode li,
           accountName = None,
           relatedAccount = None \<rparr>)"

text \<open>The rows one invoice adds: the body of the loop over \<^verbatim>\<open>invoices\<close>.\<close>

definition invoiceRows ::
  "string list option \<Rightarrow> string list option \<Rightarrow> Invoice \<Rightarrow> AccountTransactionRow list" where
  "invoiceRows accountCodes accountIds invoice =
     map (invoiceLineRow invoice)
       (filter (\<lambda>li. lineMatchesAccount (li_accountCode li) (li_accountID li) accountCodes accountIds)
          (orNoItems (inv_lineItems invoice)))"

function invoiceLoop ::
  "Invoice endpoint \<Rightarrow> string list option \<Rightarrow> string list option \<Rightarrow> nat
     \<Rightarrow> AccountTransactionRow list \<Rightarrow> world
     \<Rightarrow> (xero_error + AccountTransactionRow list) \<times> world" where
  "invoiceLoop api accountCodes accountIds page rows w =
     (if page \<le> MAX_PAGES then
        (case withRetry (callEndpoint api page) w of
           (Inl err, w') \<Rightarrow> (Inl err, w')
         | (Inr body, w') \<Rightarrow>
            (let invoices = orNoItems body;
                 rows' = rows @ concat (map (invoiceRows accountCodes accountIds) invoices)
             in if length invoices < PAGE_SIZE then (Inr rows', w')
                else invoiceLoop api accountCodes accountIds (Suc page) rows' w'))
      else (Inr rows, w))"
  by pat_completeness auto
termination
  by (relation "measure (\<lambda>(api, accountCodes, accountIds, page, rows, w). Suc MAX_PAGES - page)")
     auto

declare invoiceLoop.simps [simp del]

definition fetchInvoiceRows ::
  "Invoice endpoint \<Rightarrow> string list option \<Rightarrow> string list option \<Rightarrow> string option \<Rightarrow> world
     \<Rightarrow> (xero_error + AccountTransactionRow list) \<times> world" where
  "fetchInvoiceRows api accountCodes accountIds sourceType w =
     (if truthy sourceType \<and> sourceType \<noteq> Some ''ACCREC'' \<and> sourceType \<noteq> Some ''ACCPAY''
      then (Inr [], w)
      else invoiceLoop api accountCodes accountIds 1 [] w)"

subsection \<open>Credit notes\<close>

definition creditNoteLineRow :: "CreditNote \<Rightarrow> LineItem \<Rightarrow> AccountTransactionRow" where
  "creditNoteLineRow cn li =
     (let typeStr = orEmpty (cn_type cn);
          isDebitToAccount = (typeStr = ''ACCRECCREDIT'');
          sourceLabel = (if typeStr = ''ACCPAYCREDIT'' then ''Purchase Credit Note''
                         else ''Sales Credit Note'');
          lineAmt = orZero (li_lineAmount li);
          netToAccount = (if isDebitToAccount then lineAmt else - lineAmt);
          taxAmt = orZero (li_taxAmount li)
      in \<lparr> date = formatDate (cn_date cn),
           source = sourceLabel,
           contactName = contactNameOf (cn_contact cn),
           description = li_description li,
           invoiceNumber = cn_creditNoteNumber cn,
           reference = cn_reference cn,
           debit = (if netToAccount > 0 then Some netToAccount else None),
           credit = (if netToAccount < 0 then Some \<bar>netToAccount\<bar> else None),
           net = Some lineAmt,
           gross = Some (lineAmt + taxAmt),
           vat = Some taxAmt,
           accountCode = li_accountCode li,
           accountName = None,
           relatedAccount = None \<rparr>)"

definition creditNoteRows ::
  "string list option \<Rightarrow> string list option \<Rightarrow> CreditNote \<Rightarrow> AccountTransactionRow list" where
  "creditNoteRows accountCodes accountIds cn =
     map (creditNoteLineRow cn)
       (filter (\<lambda>li. lineMatchesAccount (li_accountCode li) (li_accountID li) accountCodes accountIds)
          (orNoItems (cn_lineItems cn)))"

function creditNoteLoop ::
  "CreditNote endpoint \<Rightarrow> string list option \<Rightarrow> string list option \<Rightarrow> nat
     \<Rightarrow> AccountTransactionRow list \<Rightarrow> world
     \<Rightarrow> (xero_error + AccountTransactionRow list) \<times> world" where
  "creditNoteLoop api accountCodes accountIds page rows w =
     (if page \<le> MAX_PAGES then
        (case withRetry (callEndpoint api page) w of
           (Inl err, w') \<Rightarrow> (Inl err, w')
         | (Inr body, w') \<Rightarrow>
            (let creditNotes = orNoItems body;
                 rows' = rows @ concat (map (creditNoteRows accountCodes accountIds) creditNotes)
             in if length creditNotes < PAGE_SIZE then (Inr rows', w')
                else creditNoteLoop api accountCodes accountIds (Suc page) rows' w'))
      else (Inr rows, w))"
  by pat_completeness auto
termination
  by (relation "measure (\<lambda>(api, accountCodes, accountIds, page, rows, w). Suc MAX_PAGES - page)")
     auto

declare creditNoteLoop.simps [simp del]

definition fetchCreditNoteRows ::
  "CreditNote endpoint \<Rightarrow> string list option \<Rightarrow> string list option \<Rightarrow> string option \<Rightarrow> world
     \<Rightarrow> (xero_error + AccountTransactionRow list) \<times> world" where
  "fetchCreditNoteRows api accountCodes accountIds sourceType w =
     (if truthy sourceType \<and> sourceType \<noteq> Some ''ACCRECCREDIT''
           \<and> sourceType \<noteq> Some ''ACCPAYCREDIT''
      then (Inr [], w)
      else creditNoteLoop api accountCodes accountIds 1 [] w)"

subsection \<open>Bank transactions\<close>

text \<open>\<^verbatim>\<open>bt.bankAccount?.code\<close>, \<^verbatim>\<open>?.name\<close> and \<^verbatim>\<open>?.accountID\<close>\<close>

definition bankAcctCodeOf :: "BankTransaction \<Rightarrow> string option" where
  "bankAcctCodeOf bt = (case bt_bankAccount bt of None \<Rightarrow> None | Some ba \<Rightarrow> ba_code ba)"

definition bankAcctNameOf :: "BankTransaction \<Rightarrow> string option" where
  "bankAcctNameOf bt = (case bt_bankAccount bt of None \<Rightarrow> None | Some ba \<Rightarrow> ba_name ba)"

definition bankAcctIdOf :: "BankTransaction \<Rightarrow> string option" where
  "bankAcctIdOf bt = (case bt_bankAccount bt of None \<Rightarrow> None | Some ba \<Rightarrow> ba_accountID ba)"

text \<open>The row of a line item: the non-bank side of the transaction.\<close>

definition bankLineRow :: "BankTransaction \<Rightarrow> LineItem \<Rightarrow> AccountTransactionRow" where
  "bankLineRow bt li =
     (let typeStr = orEmpty (bt_type bt);
          isSpend = (typeStr = ''SPEND'');
          sourceLabel = (if isSpend then ''Spend Money'' else ''Receive Money'');
          bankAcctCode = bankAcctCodeOf bt;
          bankAcctName = bankAcctNameOf bt;
          lineAmt = orZero (li_lineAmount li);
          netToAccount = (if isSpend then lineAmt else - lineAmt);
          taxAmt = orZero (li_taxAmount li)
      in \<lparr> date = formatDate (bt_date bt),
           source = sourceLabel,
           contactName = contactNameOf (bt_contact bt),
           description = li_description li,
           invoiceNumber = None,
           reference = bt_reference bt,
           debit = (if netToAccount > 0 then Some netToAccount else None),
           credit = (if netToAccount < 0 then Some \<bar>netToAccount\<bar> else None),
           net = Some lineAmt,
           gross = Some (lineAmt + taxAmt),
           vat = Some taxAmt,
           accountCode = li_accountCode li,
           accountName = None,
           relatedAccount =
             (if truthy bankAcctCode
              then Some (trim (orEmpty bankAcctCode @ '' - '' @ orEmpty bankAcctName))
              else None) \<rparr>)"

text \<open>The synthetic row of the bank account itself.\<close>

definition bankSideRow :: "BankTransaction \<Rightarrow> AccountTransactionRow" where
  "bankSideRow bt =
     (let typeStr = orEmpty (bt_type bt);
          isSpend = (typeStr = ''SPEND'');
          sourceLabel = (if isSpend then ''Spend Money'' else ''Receive Money'');
          totalAmount = orZero (bt_total bt);
          subTotal = orZero (bt_subTotal bt);
          totalTax = orZero (bt_totalTax bt);
          netToAccount = (if isSpend then - totalAmount else totalAmount);
          firstLineAccount =
            (case bt_lineItems bt of
               None \<Rightarrow> None
             | Some [] \<Rightarrow> None
             | Some (l # _) \<Rightarrow> li_accountCode l)
      in \<lparr> date = formatDate (bt_date bt),
           source = sourceLabel,
           contactName = contactNameOf (bt_contact bt),
           description =
             (case bt_lineItems bt of
                None \<Rightarrow> None
              | Some ls \<Rightarrow>
                  Some (joinWith ''; '' (map orEmpty (filter truthy (map li_description ls))))),
           invoiceNumber = None,
           reference = bt_reference bt,
           debit = (if netToAccount > 0 then Some netToAccount else None),
           credit = (if netToAccount < 0 then Some \<bar>netToAccount\<bar> else None),
           net = Some subTotal,
           gross = Some totalAmount,
           vat = Some totalTax,
           accountCode = bankAcctCodeOf bt,
           accountName = bankAcctNameOf bt,
           relatedAccount = firstLineAccount \<rparr>)"

text \<open>The rows one bank transaction adds: its matching lines, then its bank side.\<close>

definition bankTransactionRows ::
  "string list option \<Rightarrow> string list option \<Rightarrow> BankTransaction \<Rightarrow> AccountTransactionRow list" where
  "bankTransactionRows accountCodes accountIds bt =
     map (bankLineRow bt)
       (filter (\<lambda>li. lineMatchesAccount (li_accountCode li) (li_accountID li) accountCodes accountIds)
          (orNoItems (bt_lineItems bt)))
     @ (if lineMatchesAccount (bankAcctCodeOf bt) (bankAcctIdOf bt) accountCodes accountIds
        then [bankSideRow bt] else [])"

function bankTransactionLoop ::
  "BankTransaction endpoint \<Rightarrow> string list option \<Rightarrow> string list option \<Rightarrow> nat
     \<Rightarrow> AccountTransactionRow list \<Rightarrow> world
     \<Rightarrow> (xero_error + AccountTransactionRow list) \<times> world" where
  "bankTransactionLoop api accountCodes accountIds page rows w =
     (if page \<le> MAX_PAGES then
        (case withRetry (callEndpoint api page) w of
           (Inl err, w') \<Rightarrow> (Inl err, w')
         | (Inr body, w') \<Rightarrow>
            (let txns = orNoItems body;
                 rows' = rows @ concat (map (bankTransactionRows accountCodes accountIds) txns)
             in if length txns < PAGE_SIZE then (Inr rows', w')
                else bankTransactionLoop api accountCodes accountIds (Suc page) rows' w'))
      else (Inr rows, w))"
  by pat_completeness auto
termination
  by (relation "measure (\<lambda>(api, accountCodes, accountIds, page, rows, w). Suc MAX_PAGES - page)")
     auto

declare bankTransactionLoop.simps [simp del]

definition fetchBankTransactionRows ::
  "BankTransaction endpoint \<Rightarrow> string list option \<Rightarrow> string list option \<Rightarrow> string option
     \<Rightarrow> world \<Rightarrow> (xero_error + AccountTransactionRow list) \<times> world" where
  "fetchBankTransactionRows api accountCodes accountIds sourceType w =
     (if truthy sourceType \<and> sourceType \<noteq> Some ''CASHREC'' \<and> sourceType \<noteq> Some ''CASHPAID''
      then (Inr [], w)
      else bankTransactionLoop api accountCodes accountIds 1 [] w)"

subsection \<open>Manual journals\<close>

record FetchResult =
  rows :: "AccountTransactionRow list"
  truncated :: bool
  scanned :: nat

definition manualJournalLineRow ::
  "ManualJournal \<Rightarrow> string option \<Rightarrow> ManualJournalLine \<Rightarrow> AccountTransactionRow" where
  "manualJournalLineRow mj related line =
     (let amt = orZero (jl_lineAmount line);
          taxAmt = orZero (jl_taxAmount line)
      in \<lparr> date = formatDate (mj_date mj),
           source = ''Manual Journal'',
           contactName = None,
           description = (case jl_description line of Some d \<Rightarrow> Some d | None \<Rightarrow> mj_narration mj),
           invoiceNumber = None,
           reference = mj_narration mj,
           debit = (if amt > 0 then Some amt else None),
           credit = (if amt < 0 then Some \<bar>amt\<bar> else None),
           net = Some amt,
           gross = Some (amt + taxAmt),
           vat = Some taxAmt,
           accountCode = jl_accountCode line,
           accountName = None,
           relatedAccount = related \<rparr>)"

text \<open>The account code of the first line that does not match the filter, trimmed.\<close>

definition journalRelatedAccount ::
  "string list option \<Rightarrow> string list option \<Rightarrow> ManualJournal \<Rightarrow> string option" where
  "journalRelatedAccount accountCodes accountIds mj =
     (let allLines = orNoItems (mj_journalLines mj);
          otherLines = filter (\<lambda>l. \<not> lineMatchesAccount (jl_accountCode l) (jl_accountID l)
                                        accountCodes accountIds) allLines
      in case otherLines of
           [] \<Rightarrow> None
         | l # _ \<Rightarrow> Some (trim (orEmpty (jl_accountCode l))))"

definition manualJournalRows ::
  "string list option \<Rightarrow> string list option \<Rightarrow> ManualJournal \<Rightarrow> AccountTransactionRow list" where
  "manualJournalRows accountCodes accountIds mj =
     (let allLines = orNoItems (mj_journalLines mj);
          matchingLines = filter (\<lambda>l. lineMatchesAccount (jl_accountCode l) (jl_accountID l)
                                        accountCodes accountIds) allLines;
          related = journalRelatedAccount accountCodes accountIds mj
      in map (manualJournalLineRow mj related) matchingLines)"

function manualJournalLoop ::
  "ManualJournal endpoint \<Rightarrow> string list option \<Rightarrow> string list option \<Rightarrow> nat
     \<Rightarrow> AccountTransactionRow list \<Rightarrow> nat \<Rightarrow> world
     \<Rightarrow> (xero_error + FetchResult) \<times> world" where
  "manualJournalLoop api accountCodes accountIds page rowsSoFar totalScanned w =
     (if page \<le> MAX_PAGES then
        (case withRetry (callEndpoint api page) w of
           (Inl err, w') \<Rightarrow> (Inl err, w')
         | (Inr body, w') \<Rightarrow>
            (let journals = orNoItems body;
                 totalScanned' = totalScanned + length journals;
                 rows' = rowsSoFar @ concat (map (manualJournalRows accountCodes accountIds) journals)
             in if length journals < MJ_PAGE_SIZE
                then (Inr \<lparr> rows = rows', truncated = page > MAX_PAGES,
                            scanned = totalScanned' \<rparr>, w')
                else manualJournalLoop api accountCodes accountIds (Suc page) rows'
                       totalScanned' w'))
      else (Inr \<lparr> rows = rowsSoFar, truncated = page > MAX_PAGES, scanned = totalScanned \<rparr>, w))"
  by pat_completeness auto
termination
  by (relation "measure (\<lambda>(api, accountCodes, accountIds, page, rowsSoFar, totalScanned, w).
                  Suc MAX_PAGES - page)")
     auto

declare manualJournalLoop.simps [simp del]

definition fetchManualJournalRows ::
  "ManualJournal endpoint \<Rightarrow> string list option \<Rightarrow> string list option \<Rightarrow> string option
     \<Rightarrow> world \<Rightarrow> (xero_error + FetchResult) \<times> world" where
  "fetchManualJournalRows api accountCodes accountIds sourceType w =
     (if truthy sourceType \<and> sourceType \<noteq> Some ''MANJOURNAL''
      then (Inr \<lparr> rows = [], truncated = False, scanned = 0 \<rparr>, w)
      else manualJournalLoop api accountCodes accountIds 1 [] 0 w)"

subsection \<open>Account name lookup\<close>

type_synonym account_endpoint = "nat \<Rightarrow> xero_error + Account list option"

definition buildAccountNameMap ::
  "account_endpoint \<Rightarrow> world \<Rightarrow> (xero_error + (string \<rightharpoonup> string)) \<times> world" where
  "buildAccountNameMap api w =
     (case withRetry (\<lambda>k. (api k, Suc k)) w of
        (Inl err, w') \<Rightarrow> (Inl err, w')
      | (Inr body, w') \<Rightarrow>
          (Inr (fold (\<lambda>acct m. if truthy (acct_code acct)
                                 then m(orEmpty (acct_code acct) \<mapsto> orEmpty (acct_name acct))
                                 else m)
                  (orNoItems body) Map.empty), w'))"

subsection \<open>Aggregation\<close>

record AccountTransactionsResult =
  rows :: "AccountTransactionRow list"
  hasMore :: bool
  nextOffset :: "int option"
  warnings :: "string list"

record XeroClientResponse =
  result :: "AccountTransactionsResult option"
  isError :: bool
  error :: "string option"

text \<open>The remote client: the outcome of \<^verbatim>\<open>authenticate\<close> and the five endpoints.\<close>

record XeroClient =
  authenticate :: "xero_error option"
  getInvoices :: "Invoice endpoint"
  getCreditNotes :: "CreditNote endpoint"
  getAccounts :: account_endpoint
  getBankTransactions :: "BankTransaction endpoint"
  getManualJournals :: "ManualJournal endpoint"

text \<open>The enrichment of one row from the map of account names.\<close>

definition enrichRow :: "(string \<rightharpoonup> string) \<Rightarrow> AccountTransactionRow \<Rightarrow> AccountTransactionRow" where
  "enrichRow accountNameMap row =
     (let row1 = (if truthy (accountCode row) \<and> \<not> truthy (accountName row)
                  then row\<lparr> accountName := accountNameMap (orEmpty (accountCode row)) \<rparr>
                  else row)
      in if truthy (relatedAccount row1) \<and> \<not> strIncludes (orEmpty (relatedAccount row1)) '' - ''
         then (case accountNameMap (orEmpty (relatedAccount row1)) of
                 None \<Rightarrow> row1
               | Some name \<Rightarrow>
                   if name \<noteq> []
                   then row1\<lparr> relatedAccount :=
                                 Some (orEmpty (relatedAccount row1) @ '' - '' @ name) \<rparr>
                   else row1)
         else row1)"

text \<open>
  \<^verbatim>\<open>a.localeCompare(b)\<close> on normalised dates, which are made of digits and dashes: there
  the collation order is the lexicographic order of the characters.
\<close>

definition localeCompare :: "string \<Rightarrow> string \<Rightarrow> int" where
  "localeCompare a b = (if a < b then - 1 else if a = b then 0 else 1)"

text \<open>
  \<^verbatim>\<open>allRows.sort((a, b) => b.date.localeCompare(a.date))\<close>: the sort of the language is
  stable; it is an insertion sort here, an element going before the first one that the
  comparator does not put strictly before it.
\<close>

definition compareRows :: "AccountTransactionRow \<Rightarrow> AccountTransactionRow \<Rightarrow> int" where
  "compareRows a b = localeCompare (date b) (date a)"

primrec insertRow :: "AccountTransactionRow \<Rightarrow> AccountTransactionRow list \<Rightarrow> AccountTransactionRow list" where
  "insertRow r [] = [r]"
| "insertRow r (x # xs) = (if compareRows r x \<le> 0 then r # x # xs else x # insertRow r xs)"

definition sortRows :: "AccountTransactionRow list \<Rightarrow> AccountTransactionRow list" where
  "sortRows rs = foldr insertRow rs []"

text \<open>
  One settled promise of a batch: its rows are pushed, or a warning naming the source.
\<close>

definition settleRows ::
  "(xero_error \<Rightarrow> string) \<Rightarrow> string \<Rightarrow> xero_error + AccountTransactionRow list
     \<Rightarrow> AccountTransactionRow list list \<times> string list
     \<Rightarrow> AccountTransactionRow list list \<times> string list" where
  "settleRows formatError label r st =
     (case st of (rowArrays, ws) \<Rightarrow>
        (case r of
           Inr value \<Rightarrow> (rowArrays @ [value], ws)
         | Inl reason \<Rightarrow> (rowArrays, ws @ [label @ '' endpoint failed: '' @ formatError reason])))"

definition digitChar :: "nat \<Rightarrow> char" where
  "digitChar n = ''0123456789'' ! n"

text \<open>The decimal text of a count, as a template literal prints it.\<close>

fun showNat :: "nat \<Rightarrow> string" where
  "showNat n = (if n < 10 then [digitChar n] else showNat (n div 10) @ [digitChar (n mod 10)])"

declare showNat.simps [simp del]

definition settleManualJournals ::
  "(xero_error \<Rightarrow> string) \<Rightarrow> xero_error + FetchResult
     \<Rightarrow> AccountTransactionRow list list \<times> string list
     \<Rightarrow> AccountTransactionRow list list \<times> string list" where
  "settleManualJournals formatError r st =
     (case st of (rowArrays, ws) \<Rightarrow>
        (case r of
           Inr value \<Rightarrow>
             (rowArrays @ [FetchResult.rows value],
              if truncated value
              then ws @ [''Manual Journals results may be incomplete: scanned ''
                          @ showNat (scanned value)
                          @ '' journals but hit the pagination limit. ''
                          @ ''Try narrowing the date range for complete results.'']
              else ws)
         | Inl reason \<Rightarrow>
             (rowArrays, ws @ [''Manual Journals endpoint failed: '' @ formatError reason])))"

text \<open>
  The public handler. Every extractor has an endpoint of its own, so the interleaving of
  the tasks of a batch does not change what each one returns: each starts from the world
  with no call made and no sleep. \<open>formatError\<close> is the formatting helper of the repository.
\<close>

definition listXeroAccountTransactions ::
  "(xero_error \<Rightarrow> string) \<Rightarrow> XeroClient \<Rightarrow> string list option \<Rightarrow> string list option
     \<Rightarrow> string option \<Rightarrow> XeroClientResponse" where
  "listXeroAccountTransactions formatError xeroClient accountCodes accountIds sourceType =
     (case authenticate xeroClient of
        Some err \<Rightarrow> \<lparr> result = None, isError = True, error = Some (formatError err) \<rparr>
      | None \<Rightarrow>
         (let batch1_0 = fst (fetchInvoiceRows (getInvoices xeroClient)
                               accountCodes accountIds sourceType (0, []));
              batch1_1 = fst (fetchCreditNoteRows (getCreditNotes xeroClient)
                               accountCodes accountIds sourceType (0, []));
              batch1_2 = fst (buildAccountNameMap (getAccounts xeroClient) (0, []));
              st1 = settleRows formatError ''Credit Notes'' batch1_1
                      (settleRows formatError ''Invoices'' batch1_0 ([], []));
              accountNameMap = (case batch1_2 of Inr m \<Rightarrow> m | Inl reason \<Rightarrow> Map.empty);
              st2 = (case batch1_2 of
                       Inr m \<Rightarrow> st1
                     | Inl reason \<Rightarrow>
                         (fst st1, snd st1 @ [''Account name lookup failed: ''
                                               @ formatError reason]));
              btResult = fst (fetchBankTransactionRows (getBankTransactions xeroClient)
                               accountCodes accountIds sourceType (0, []));
              mjResult = fst (fetchManualJournalRows (getManualJournals xeroClient)
                               accountCodes accountIds sourceType (0, []));
              st3 = settleRows formatError ''Bank Transactions'' btResult st2;
              st4 = settleManualJournals formatError mjResult st3;
              allRows = map (enrichRow accountNameMap) (concat (fst st4))
          in \<lparr> result = Some \<lparr> rows = sortRows allRows, hasMore = False,
                                 nextOffset = None, warnings = snd st4 \<rparr>,
               isError = False, error = None \<rparr>))"

section \<open>Vocabulary of the properties\<close>

subsection \<open>Rate limits\<close>

text \<open>A failure is a rate limit when its payload has a response with status 429.\<close>

definition isRateLimit :: "xero_error \<Rightarrow> bool" where
  "isRateLimit e =
     (case parseXeroError e of
        None \<Rightarrow> False
      | Some parsed \<Rightarrow>
          (case response parsed of
             None \<Rightarrow> False
           | Some resp \<Rightarrow> statusCode resp = Some 429 \<or> status resp = Some 429))"







subsection \<open>Account filters\<close>

definition filterSet :: "string list option \<Rightarrow> string set" where
  "filterSet f = (case f of None \<Rightarrow> {} | Some xs \<Rightarrow> set xs)"

subsection \<open>Source types\<close>

text \<open>The source types that some extractor owns.\<close>

definition sourceTypes :: "string list" where
  "sourceTypes = [''ACCREC'', ''ACCPAY'', ''ACCRECCREDIT'', ''ACCPAYCREDIT'',
                  ''CASHREC'', ''CASHPAID'', ''MANJOURNAL'']"

subsection \<open>Reading an envelope\<close>

definition resultRows :: "XeroClientResponse \<Rightarrow> AccountTransactionRow list" where
  "resultRows resp = (case result resp of None \<Rightarrow> [] | Some res \<Rightarrow> rows res)"

definition resultWarnings :: "XeroClientResponse \<Rightarrow> string list" where
  "resultWarnings resp = (case result resp of None \<Rightarrow> [] | Some res \<Rightarrow> warnings res)"

subsection \<open>Mock endpoints and documents\<close>

text \<open>An endpoint that answers every call with the same page.\<close>

definition onePage :: "'a list \<Rightarrow> 'a endpoint" where
  "onePage docs = (\<lambda>k page. Inr (Some docs))"

definition failing :: "xero_error \<Rightarrow> 'a endpoint" where
  "failing e = (\<lambda>k page. Inl e)"

definition accountsPage :: "Account list \<Rightarrow> account_endpoint" where
  "accountsPage accts = (\<lambda>k. Inr (Some accts))"

definition lineOn :: "string \<Rightarrow> real \<Rightarrow> LineItem" where
  "lineOn code amount =
     \<lparr> li_accountCode = Some code, li_accountID = None, li_lineAmount = Some amount,
       li_taxAmount = Some 0, li_description = Some ''Consulting'' \<rparr>"

definition invoiceOf :: "string \<Rightarrow> string \<Rightarrow> LineItem list \<Rightarrow> Invoice" where
  "invoiceOf type day items =
     \<lparr> inv_type = Some type, inv_contact = Some \<lparr> contact_name = Some ''Acme'' \<rparr>,
       inv_date = DateString (day @ ''T00:00:00''), inv_lineItems = Some items,
       inv_invoiceNumber = Some ''INV-1'', inv_reference = None \<rparr>"

definition creditNoteOf :: "string \<Rightarrow> string \<Rightarrow> LineItem list \<Rightarrow> CreditNote" where
  "creditNoteOf type day items =
     \<lparr> cn_type = Some type, cn_contact = Some \<lparr> contact_name = Some ''Acme'' \<rparr>,
       cn_date = DateString (day @ ''T00:00:00''), cn_lineItems = Some items,
       cn_creditNoteNumber = Some ''CN-1'', cn_reference = None \<rparr>"

definition journalLineOn :: "string option \<Rightarrow> real \<Rightarrow> ManualJournalLine" where
  "journalLineOn code amount =
     \<lparr> jl_accountCode = code, jl_accountID = None, jl_lineAmount = Some amount,
       jl_taxAmount = None, jl_description = None \<rparr>"

definition journalOf :: "string \<Rightarrow> ManualJournalLine list \<Rightarrow> ManualJournal" where
  "journalOf day ls =
     \<lparr> mj_date = DateString day, mj_journalLines = Some ls, mj_narration = Some ''Accrual'' \<rparr>"

text \<open>A client whose only data is the given invoices.\<close>

definition invoicesOnlyClient :: "Invoice list \<Rightarrow> XeroClient" where
  "invoicesOnlyClient invoices =
     \<lparr> authenticate = None,
       getInvoices = onePage invoices,
       getCreditNotes = onePage [],
       getAccounts = accountsPage [],
       getBankTransactions = onePage [],
       getManualJournals = onePage [] \<rparr>"

definition plainFormat :: "xero_error \<Rightarrow> string" where
  "plainFormat e = (case e of ErrText s \<Rightarrow> s | ErrJson obj \<Rightarrow> message obj
                    | ErrObject obj \<Rightarrow> message obj)"

text \<open>The lines of a journal that the filter does not match.\<close>

definition otherLines ::
  "string list option \<Rightarrow> string list option \<Rightarrow> ManualJournal \<Rightarrow> ManualJournalLine list" where
  "otherLines accountCodes accountIds mj =
     filter (\<lambda>l. \<not> lineMatchesAccount (jl_accountCode l) (jl_accountID l) accountCodes accountIds)
       (orNoItems (mj_journalLines mj))"

subsection \<open>Settled promises\<close>

text \<open>What a settled promise contributes: its rows and no warning, or no row and a warning.\<close>

definition rowsOrNone :: "xero_error + AccountTransactionRow list \<Rightarrow> AccountTransactionRow list" where
  "rowsOrNone r = (case r of Inl e \<Rightarrow> [] | Inr v \<Rightarrow> v)"

definition journalRowsOrNone :: "xero_error + FetchResult \<Rightarrow> AccountTransactionRow list" where
  "journalRowsOrNone r = (case r of Inl e \<Rightarrow> [] | Inr v \<Rightarrow> FetchResult.rows v)"

definition namesOrNone :: "xero_error + (string \<rightharpoonup> string) \<Rightarrow> (string \<rightharpoonup> string)" where
  "namesOrNone r = (case r of Inl e \<Rightarrow> Map.empty | Inr m \<Rightarrow> m)"

definition failureWarning :: "(xero_error \<Rightarrow> string) \<Rightarrow> string \<Rightarrow> xero_error + 'a \<Rightarrow> string list" where
  "failureWarning fe label r =
     (case r of Inl e \<Rightarrow> [label @ '' endpoint failed: '' @ fe e] | Inr v \<Rightarrow> [])"

definition lookupWarning :: "(xero_error \<Rightarrow> string) \<Rightarrow> xero_error + 'a \<Rightarrow> string list" where
  "lookupWarning fe r =
     (case r of Inl e \<Rightarrow> [''Account name lookup failed: '' @ fe e] | Inr v \<Rightarrow> [])"

definition truncationWarning :: "nat \<Rightarrow> string" where
  "truncationWarning n =
     ''Manual Journals results may be incomplete: scanned '' @ showNat n
       @ '' journals but hit the pagination limit. ''
       @ ''Try narrowing the date range for complete results.''"

definition journalWarnings :: "(xero_error \<Rightarrow> string) \<Rightarrow> xero_error + FetchResult \<Rightarrow> string list" where
  "journalWarnings fe r =
     (case r of
        Inl e \<Rightarrow> [''Manual Journals endpoint failed: '' @ fe e]
      | Inr v \<Rightarrow> if truncated v then [truncationWarning (scanned v)] else [])"


text \<open>A client whose bank-transaction endpoint fails and whose other sources answer.\<close>

definition bankDownClient :: XeroClient where
  "bankDownClient =
     \<lparr> authenticate = None,
       getInvoices = onePage [invoiceOf ''ACCPAY'' ''2024-01-01'' [lineOn ''400'' 10]],
       getCreditNotes = onePage [creditNoteOf ''ACCPAYCREDIT'' ''2024-01-05'' [lineOn ''400'' 4]],
       getAccounts = accountsPage [\<lparr> acct_code = Some ''400'', acct_name = Some ''Advertising'' \<rparr>],
       getBankTransactions = failing (ErrText ''ECONNRESET''),
       getManualJournals =
         onePage [journalOf ''2024-01-03'' [journalLineOn (Some ''400'') 7,
                                           journalLineOn (Some ''800'') (- 7)]] \<rparr>"

text \<open>A journal with no lines, and a client whose journal pages are always full.\<close>

definition blankJournal :: ManualJournal where
  "blankJournal = \<lparr> mj_date = DateString ''2024-01-01'', mj_journalLines = None,
                     mj_narration = None \<rparr>"

definition fullJournalPagesClient :: XeroClient where
  "fullJournalPagesClient =
     \<lparr> authenticate = None,
       getInvoices = onePage [],
       getCreditNotes = onePage [],
       getAccounts = accountsPage [],
       getBankTransactions = onePage [],
       getManualJournals = onePage (replicate 1000 blankJournal) \<rparr>"

subsection \<open>Amounts of a row\<close>

text \<open>
  A row of a line: the gross is the net plus the tax; debit and credit are never both
  set, one of them is set when the net is not zero, and the one that is set is positive
  and is the magnitude of the net (which is the magnitude of the amount to the account).
\<close>

definition lineRowOk :: "AccountTransactionRow \<Rightarrow> bool" where
  "lineRowOk r =
     (case (net r, vat r, gross r) of
        (Some n, Some v, Some g) \<Rightarrow>
           g = n + v
         \<and> (n \<noteq> 0 \<longrightarrow> (debit r = None) \<noteq> (credit r = None))
         \<and> (debit r = None \<or> credit r = None)
         \<and> (case debit r of None \<Rightarrow> True | Some d \<Rightarrow> 0 < d \<and> d = \<bar>n\<bar>)
         \<and> (case credit r of None \<Rightarrow> True | Some x \<Rightarrow> 0 < x \<and> x = \<bar>n\<bar>)
      | _ \<Rightarrow> False)"

text \<open>
  The row of the bank side of a transaction: net, tax and gross are the subtotal, the
  total tax and the total of the transaction as the API gives them; debit and credit are
  never both set, one of them is set when the total is not zero, and the one that is set
  is positive and is the magnitude of the total.
\<close>

definition bankSideOk :: "BankTransaction \<Rightarrow> AccountTransactionRow \<Rightarrow> bool" where
  "bankSideOk bt r =
     (net r = Some (orZero (bt_subTotal bt))
    \<and> vat r = Some (orZero (bt_totalTax bt))
    \<and> gross r = Some (orZero (bt_total bt))
    \<and> (orZero (bt_total bt) \<noteq> 0 \<longrightarrow> (debit r = None) \<noteq> (credit r = None))
    \<and> (debit r = None \<or> credit r = None)
    \<and> (case debit r of None \<Rightarrow> True | Some d \<Rightarrow> 0 < d \<and> d = \<bar>orZero (bt_total bt)\<bar>)
    \<and> (case credit r of None \<Rightarrow> True | Some x \<Rightarrow> 0 < x \<and> x = \<bar>orZero (bt_total bt)\<bar>))"

text \<open>A bank account and transactions on it.\<close>

definition account090 :: BankAccount where
  "account090 = \<lparr> ba_code = Some ''090'', ba_name = Some ''Business Bank Account'',
                   ba_accountID = Some ''ba-090'' \<rparr>"

definition spend100 :: BankTransaction where
  "spend100 =
     \<lparr> bt_type = Some ''SPEND'', bt_contact = None, bt_date = DateString ''2024-04-02'',
       bt_bankAccount = Some account090, bt_lineItems = Some [lineOn ''400'' 100],
       bt_reference = None, bt_total = Some 100, bt_subTotal = Some 100,
       bt_totalTax = Some 0 \<rparr>"

text \<open>A transaction whose total the API left out.\<close>

definition receiveNoTotal :: BankTransaction where
  "receiveNoTotal =
     \<lparr> bt_type = Some ''RECEIVE'', bt_contact = None, bt_date = DateString ''2024-04-03'',
       bt_bankAccount = Some account090, bt_lineItems = Some [lineOn ''200'' 100],
       bt_reference = None, bt_total = None, bt_subTotal = Some 100,
       bt_totalTax = Some 0 \<rparr>"

section \<open>Properties\<close>

subsection \<open>The account matcher\<close>

text \<open>
  C7, as the code has it. The matcher is true exactly when the line has a non-empty
  account code that is in the code filter, or a non-empty account id that is in the id
  filter, or both filters are absent or empty. An empty code or id is treated as absent:
  it never matches, even when the filter lists the empty string.
\<close>

theorem lineMatchesAccount_iff:
  "lineMatchesAccount c i fc fi \<longleftrightarrow>
     (\<exists>x. c = Some x \<and> x \<noteq> [] \<and> x \<in> filterSet fc)
   \<or> (\<exists>y. i = Some y \<and> y \<noteq> [] \<and> y \<in> filterSet fi)
   \<or> (filterSet fc = {} \<and> filterSet fi = {})"
  by (auto simp: lineMatchesAccount_def filterSet_def hasLength_def truthy_def arrayIncludes_def
           split: option.splits)

theorem lineMatchesAccount_iff_witness:
  "lineMatchesAccount (Some ''400'') None (Some [''200'', ''400'']) None
   \<and> \<not> lineMatchesAccount (Some ''500'') (Some ''id-5'') (Some [''200'', ''400'']) None
   \<and> lineMatchesAccount None (Some ''id-5'') (Some [''200'']) (Some [''id-5''])
   \<and> lineMatchesAccount (Some ''500'') None None (Some [])"
  using lineMatchesAccount_iff [of "Some ''400''" None "Some [''200'', ''400'']" None]
        lineMatchesAccount_iff [of "Some ''500''" "Some ''id-5''" "Some [''200'', ''400'']" None]
        lineMatchesAccount_iff [of None "Some ''id-5''" "Some [''200'']" "Some [''id-5'']"]
        lineMatchesAccount_iff [of "Some ''500''" None None "Some []"]
  by (simp add: filterSet_def)

text \<open>
  C7 as stated fails: the empty code is a member of the filter that lists it, and the
  matcher still answers false.
\<close>

theorem lineMatchesAccount_empty_code_counterexample:
  "[] \<in> filterSet (Some [[]]) \<and> \<not> lineMatchesAccount (Some []) None (Some [[]]) None"
  by (simp add: filterSet_def lineMatchesAccount_def hasLength_def truthy_def arrayIncludes_def)

subsection \<open>The fetch wrapper\<close>



lemma getRetryAfterMs_other:
  "\<not> isRateLimit e \<Longrightarrow> getRetryAfterMs e = None"
  by (auto simp: isRateLimit_def getRetryAfterMs_def split: option.splits)

lemma withRetry_loop_ok:
  "fn s = (Inr v, s') \<Longrightarrow> withRetry_loop fn attempt (s, sl) = (Inr v, s', sl)"
  by (simp add: withRetry_loop.simps)

lemma withRetry_loop_other:
  "fn s = (Inl e, s') \<Longrightarrow> getRetryAfterMs e = None
     \<Longrightarrow> withRetry_loop fn attempt (s, sl) = (Inl e, s', sl)"
  by (simp add: withRetry_loop.simps)







subsection \<open>The paging loops\<close>

lemma withRetry_callEndpoint_ok:
  "api k page = Inr body \<Longrightarrow> withRetry (callEndpoint api page) (k, sl) = (Inr body, Suc k, sl)"
  by (simp add: withRetry_def withRetry_loop_ok callEndpoint_def)

lemma withRetry_callEndpoint_broken:
  "api k page = Inl e \<Longrightarrow> \<not> isRateLimit e
     \<Longrightarrow> withRetry (callEndpoint api page) (k, sl) = (Inl e, Suc k, sl)"
  by (simp add: withRetry_def withRetry_loop_other getRetryAfterMs_other callEndpoint_def)

lemma invoiceLoop_done:
  "\<not> page \<le> MAX_PAGES \<Longrightarrow> invoiceLoop api c i page acc w = (Inr acc, w)"
  by (subst invoiceLoop.simps) simp

lemma invoiceLoop_fail:
  "page \<le> MAX_PAGES \<Longrightarrow> withRetry (callEndpoint api page) w = (Inl e, w1)
     \<Longrightarrow> invoiceLoop api c i page acc w = (Inl e, w1)"
  by (subst invoiceLoop.simps) simp

lemma invoiceLoop_stop:
  "page \<le> MAX_PAGES \<Longrightarrow> withRetry (callEndpoint api page) w = (Inr body, w1)
     \<Longrightarrow> length (orNoItems body) < PAGE_SIZE
     \<Longrightarrow> invoiceLoop api c i page acc w
         = (Inr (acc @ concat (map (invoiceRows c i) (orNoItems body))), w1)"
  by (subst invoiceLoop.simps) simp

lemma invoiceLoop_step:
  "page \<le> MAX_PAGES \<Longrightarrow> withRetry (callEndpoint api page) w = (Inr body, w1)
     \<Longrightarrow> \<not> length (orNoItems body) < PAGE_SIZE
     \<Longrightarrow> invoiceLoop api c i page acc w
         = invoiceLoop api c i (Suc page) (acc @ concat (map (invoiceRows c i) (orNoItems body))) w1"
  by (subst invoiceLoop.simps) simp

text \<open>What the loop returns is what it started with, then the rows of the invoices read.\<close>

lemma invoiceLoop_rows:
  "invoiceLoop api c i page acc w = (Inr out, w')
     \<Longrightarrow> \<exists>docs. out = acc @ concat (map (invoiceRows c i) docs)"
proof (induction "Suc MAX_PAGES - page" arbitrary: page acc w)
  case 0
  then have "\<not> page \<le> MAX_PAGES" by simp
  with "0.prems" have "out = acc" by (simp add: invoiceLoop_done)
  then show ?case by (intro exI[of _ "[]"]) simp
next
  case (Suc n)
  then have le: "page \<le> MAX_PAGES" by simp
  obtain x w1 where call: "withRetry (callEndpoint api page) w = (x, w1)"
    by (cases "withRetry (callEndpoint api page) w")
  show ?case
  proof (cases x)
    case (Inl e)
    with call le Suc.prems show ?thesis by (simp add: invoiceLoop_fail)
  next
    case (Inr body)
    let ?acc' = "acc @ concat (map (invoiceRows c i) (orNoItems body))"
    show ?thesis
    proof (cases "length (orNoItems body) < PAGE_SIZE")
      case True
      with call le Inr Suc.prems have "out = ?acc'" by (simp add: invoiceLoop_stop)
      then show ?thesis by blast
    next
      case False
      with call le Inr Suc.prems
      have "invoiceLoop api c i (Suc page) ?acc' w1 = (Inr out, w')"
        by (simp add: invoiceLoop_step)
      moreover from Suc.hyps(2) le have "n = Suc MAX_PAGES - Suc page" by simp
      ultimately obtain docs where "out = ?acc' @ concat (map (invoiceRows c i) docs)"
        using Suc.hyps(1) by blast
      then have "out = acc @ concat (map (invoiceRows c i) (orNoItems body @ docs))" by simp
      then show ?thesis by blast
    qed
  qed
qed

text \<open>One short page, answered at the first try, ends the loop.\<close>

lemma invoiceLoop_short_page:
  "page \<le> MAX_PAGES \<Longrightarrow> api k page = Inr body \<Longrightarrow> length (orNoItems body) < PAGE_SIZE
     \<Longrightarrow> invoiceLoop api c i page acc (k, sl)
         = (Inr (acc @ concat (map (invoiceRows c i) (orNoItems body))), Suc k, sl)"
  by (simp add: invoiceLoop_stop withRetry_callEndpoint_ok)

lemma invoiceLoop_broken:
  "page \<le> MAX_PAGES \<Longrightarrow> api k page = Inl e \<Longrightarrow> \<not> isRateLimit e
     \<Longrightarrow> invoiceLoop api c i page acc (k, sl) = (Inl e, Suc k, sl)"
  by (simp add: invoiceLoop_fail withRetry_callEndpoint_broken)

lemma creditNoteLoop_done:
  "\<not> page \<le> MAX_PAGES \<Longrightarrow> creditNoteLoop api c i page acc w = (Inr acc, w)"
  by (subst creditNoteLoop.simps) simp

lemma creditNoteLoop_fail:
  "page \<le> MAX_PAGES \<Longrightarrow> withRetry (callEndpoint api page) w = (Inl e, w1)
     \<Longrightarrow> creditNoteLoop api c i page acc w = (Inl e, w1)"
  by (subst creditNoteLoop.simps) simp

lemma creditNoteLoop_stop:
  "page \<le> MAX_PAGES \<Longrightarrow> withRetry (callEndpoint api page) w = (Inr body, w1)
     \<Longrightarrow> length (orNoItems body) < PAGE_SIZE
     \<Longrightarrow> creditNoteLoop api c i page acc w
         = (Inr (acc @ concat (map (creditNoteRows c i) (orNoItems body))), w1)"
  by (subst creditNoteLoop.simps) simp

lemma creditNoteLoop_step:
  "page \<le> MAX_PAGES \<Longrightarrow> withRetry (callEndpoint api page) w = (Inr body, w1)
     \<Longrightarrow> \<not> length (orNoItems body) < PAGE_SIZE
     \<Longrightarrow> creditNoteLoop api c i page acc w
         = creditNoteLoop api c i (Suc page) (acc @ concat (map (creditNoteRows c i) (orNoItems body))) w1"
  by (subst creditNoteLoop.simps) simp

text \<open>What the loop returns is what it started with, then the rows of the credit notes read.\<close>

lemma creditNoteLoop_rows:
  "creditNoteLoop api c i page acc w = (Inr out, w')
     \<Longrightarrow> \<exists>docs. out = acc @ concat (map (creditNoteRows c i) docs)"
proof (induction "Suc MAX_PAGES - page" arbitrary: page acc w)
  case 0
  then have "\<not> page \<le> MAX_PAGES" by simp
  with "0.prems" have "out = acc" by (simp add: creditNoteLoop_done)
  then show ?case by (intro exI[of _ "[]"]) simp
next
  case (Suc n)
  then have le: "page \<le> MAX_PAGES" by simp
  obtain x w1 where call: "withRetry (callEndpoint api page) w = (x, w1)"
    by (cases "withRetry (callEndpoint api page) w")
  show ?case
  proof (cases x)
    case (Inl e)
    with call le Suc.prems show ?thesis by (simp add: creditNoteLoop_fail)
  next
    case (Inr body)
    let ?acc' = "acc @ concat (map (creditNoteRows c i) (orNoItems body))"
    show ?thesis
    proof (cases "length (orNoItems body) < PAGE_SIZE")
      case True
      with call le Inr Suc.prems have "out = ?acc'" by (simp add: creditNoteLoop_stop)
      then show ?thesis by blast
    next
      case False
      with call le Inr Suc.prems
      have "creditNoteLoop api c i (Suc page) ?acc' w1 = (Inr out, w')"
        by (simp add: creditNoteLoop_step)
      moreover from Suc.hyps(2) le have "n = Suc MAX_PAGES - Suc page" by simp
      ultimately obtain docs where "out = ?acc' @ concat (map (creditNoteRows c i) docs)"
        using Suc.hyps(1) by blast
      then have "out = acc @ concat (map (creditNoteRows c i) (orNoItems body @ docs))" by simp
      then show ?thesis by blast
    qed
  qed
qed

text \<open>One short page, answered at the first try, ends the loop.\<close>

lemma creditNoteLoop_short_page:
  "page \<le> MAX_PAGES \<Longrightarrow> api k page = Inr body \<Longrightarrow> length (orNoItems body) < PAGE_SIZE
     \<Longrightarrow> creditNoteLoop api c i page acc (k, sl)
         = (Inr (acc @ concat (map (creditNoteRows c i) (orNoItems body))), Suc k, sl)"
  by (simp add: creditNoteLoop_stop withRetry_callEndpoint_ok)

lemma creditNoteLoop_broken:
  "page \<le> MAX_PAGES \<Longrightarrow> api k page = Inl e \<Longrightarrow> \<not> isRateLimit e
     \<Longrightarrow> creditNoteLoop api c i page acc (k, sl) = (Inl e, Suc k, sl)"
  by (simp add: creditNoteLoop_fail withRetry_callEndpoint_broken)

lemma bankTransactionLoop_done:
  "\<not> page \<le> MAX_PAGES \<Longrightarrow> bankTransactionLoop api c i page acc w = (Inr acc, w)"
  by (subst bankTransactionLoop.simps) simp

lemma bankTransactionLoop_fail:
  "page \<le> MAX_PAGES \<Longrightarrow> withRetry (callEndpoint api page) w = (Inl e, w1)
     \<Longrightarrow> bankTransactionLoop api c i page acc w = (Inl e, w1)"
  by (subst bankTransactionLoop.simps) simp

lemma bankTransactionLoop_stop:
  "page \<le> MAX_PAGES \<Longrightarrow> withRetry (callEndpoint api page) w = (Inr body, w1)
     \<Longrightarrow> length (orNoItems body) < PAGE_SIZE
     \<Longrightarrow> bankTransactionLoop api c i page acc w
         = (Inr (acc @ concat (map (bankTransactionRows c i) (orNoItems body))), w1)"
  by (subst bankTransactionLoop.simps) simp

lemma bankTransactionLoop_step:
  "page \<le> MAX_PAGES \<Longrightarrow> withRetry (callEndpoint api page) w = (Inr body, w1)
     \<Longrightarrow> \<not> length (orNoItems body) < PAGE_SIZE
     \<Longrightarrow> bankTransactionLoop api c i page acc w
         = bankTransactionLoop api c i (Suc page) (acc @ concat (map (bankTransactionRows c i) (orNoItems body))) w1"
  by (subst bankTransactionLoop.simps) simp

text \<open>What the loop returns is what it started with, then the rows of the bank transactions read.\<close>

lemma bankTransactionLoop_rows:
  "bankTransactionLoop api c i page acc w = (Inr out, w')
     \<Longrightarrow> \<exists>docs. out = acc @ concat (map (bankTransactionRows c i) docs)"
proof (induction "Suc MAX_PAGES - page" arbitrary: page acc w)
  case 0
  then have "\<not> page \<le> MAX_PAGES" by simp
  with "0.prems" have "out = acc" by (simp add: bankTransactionLoop_done)
  then show ?case by (intro exI[of _ "[]"]) simp
next
  case (Suc n)
  then have le: "page \<le> MAX_PAGES" by simp
  obtain x w1 where call: "withRetry (callEndpoint api page) w = (x, w1)"
    by (cases "withRetry (callEndpoint api page) w")
  show ?case
  proof (cases x)
    case (Inl e)
    with call le Suc.prems show ?thesis by (simp add: bankTransactionLoop_fail)
  next
    case (Inr body)
    let ?acc' = "acc @ concat (map (bankTransactionRows c i) (orNoItems body))"
    show ?thesis
    proof (cases "length (orNoItems body) < PAGE_SIZE")
      case True
      with call le Inr Suc.prems have "out = ?acc'" by (simp add: bankTransactionLoop_stop)
      then show ?thesis by blast
    next
      case False
      with call le Inr Suc.prems
      have "bankTransactionLoop api c i (Suc page) ?acc' w1 = (Inr out, w')"
        by (simp add: bankTransactionLoop_step)
      moreover from Suc.hyps(2) le have "n = Suc MAX_PAGES - Suc page" by simp
      ultimately obtain docs where "out = ?acc' @ concat (map (bankTransactionRows c i) docs)"
        using Suc.hyps(1) by blast
      then have "out = acc @ concat (map (bankTransactionRows c i) (orNoItems body @ docs))" by simp
      then show ?thesis by blast
    qed
  qed
qed

text \<open>One short page, answered at the first try, ends the loop.\<close>

lemma bankTransactionLoop_short_page:
  "page \<le> MAX_PAGES \<Longrightarrow> api k page = Inr body \<Longrightarrow> length (orNoItems body) < PAGE_SIZE
     \<Longrightarrow> bankTransactionLoop api c i page acc (k, sl)
         = (Inr (acc @ concat (map (bankTransactionRows c i) (orNoItems body))), Suc k, sl)"
  by (simp add: bankTransactionLoop_stop withRetry_callEndpoint_ok)

lemma bankTransactionLoop_broken:
  "page \<le> MAX_PAGES \<Longrightarrow> api k page = Inl e \<Longrightarrow> \<not> isRateLimit e
     \<Longrightarrow> bankTransactionLoop api c i page acc (k, sl) = (Inl e, Suc k, sl)"
  by (simp add: bankTransactionLoop_fail withRetry_callEndpoint_broken)

lemma manualJournalLoop_done:
  "\<not> page \<le> MAX_PAGES
     \<Longrightarrow> manualJournalLoop api c i page acc n w
         = (Inr \<lparr> FetchResult.rows = acc, truncated = True, scanned = n \<rparr>, w)"
  by (subst manualJournalLoop.simps) simp

lemma manualJournalLoop_fail:
  "page \<le> MAX_PAGES \<Longrightarrow> withRetry (callEndpoint api page) w = (Inl e, w1)
     \<Longrightarrow> manualJournalLoop api c i page acc n w = (Inl e, w1)"
  by (subst manualJournalLoop.simps) simp

lemma manualJournalLoop_stop:
  "page \<le> MAX_PAGES \<Longrightarrow> withRetry (callEndpoint api page) w = (Inr body, w1)
     \<Longrightarrow> length (orNoItems body) < MJ_PAGE_SIZE
     \<Longrightarrow> manualJournalLoop api c i page acc n w
         = (Inr \<lparr> FetchResult.rows = acc @ concat (map (manualJournalRows c i) (orNoItems body)),
                   truncated = False, scanned = n + length (orNoItems body) \<rparr>, w1)"
  by (subst manualJournalLoop.simps) (simp add: Let_def)

lemma manualJournalLoop_step:
  "page \<le> MAX_PAGES \<Longrightarrow> withRetry (callEndpoint api page) w = (Inr body, w1)
     \<Longrightarrow> \<not> length (orNoItems body) < MJ_PAGE_SIZE
     \<Longrightarrow> manualJournalLoop api c i page acc n w
         = manualJournalLoop api c i (Suc page)
             (acc @ concat (map (manualJournalRows c i) (orNoItems body)))
             (n + length (orNoItems body)) w1"
  by (subst manualJournalLoop.simps) (simp add: Let_def)

text \<open>The rows are those of the journals read, and the count scanned is their number.\<close>

lemma manualJournalLoop_rows:
  "manualJournalLoop api c i page acc n w = (Inr fr, w')
     \<Longrightarrow> \<exists>docs. FetchResult.rows fr = acc @ concat (map (manualJournalRows c i) docs)
               \<and> scanned fr = n + length docs"
proof (induction "Suc MAX_PAGES - page" arbitrary: page acc n w)
  case 0
  then have "\<not> page \<le> MAX_PAGES" by simp
  with "0.prems" have "fr = \<lparr> FetchResult.rows = acc, truncated = True, scanned = n \<rparr>"
    by (simp add: manualJournalLoop_done)
  then show ?case by (intro exI[of _ "[]"]) simp
next
  case (Suc m)
  then have le: "page \<le> MAX_PAGES" by simp
  obtain x w1 where call: "withRetry (callEndpoint api page) w = (x, w1)"
    by (cases "withRetry (callEndpoint api page) w")
  show ?case
  proof (cases x)
    case (Inl e)
    with call le Suc.prems show ?thesis by (simp add: manualJournalLoop_fail)
  next
    case (Inr body)
    let ?acc' = "acc @ concat (map (manualJournalRows c i) (orNoItems body))"
    show ?thesis
    proof (cases "length (orNoItems body) < MJ_PAGE_SIZE")
      case True
      with call le Inr Suc.prems
      have "fr = \<lparr> FetchResult.rows = ?acc', truncated = False, scanned = n + length (orNoItems body) \<rparr>"
        by (simp add: manualJournalLoop_stop)
      then show ?thesis by (intro exI[of _ "orNoItems body"]) simp
    next
      case False
      with call le Inr Suc.prems
      have "manualJournalLoop api c i (Suc page) ?acc' (n + length (orNoItems body)) w1
              = (Inr fr, w')"
        by (simp add: manualJournalLoop_step)
      moreover from Suc.hyps(2) le have "m = Suc MAX_PAGES - Suc page" by simp
      ultimately obtain docs where
        "FetchResult.rows fr = ?acc' @ concat (map (manualJournalRows c i) docs)
         \<and> scanned fr = (n + length (orNoItems body)) + length docs"
        using Suc.hyps(1) by blast
      then have "FetchResult.rows fr
                   = acc @ concat (map (manualJournalRows c i) (orNoItems body @ docs))
                 \<and> scanned fr = n + length (orNoItems body @ docs)"
        by simp
      then show ?thesis by blast
    qed
  qed
qed

lemma manualJournalLoop_short_page:
  "page \<le> MAX_PAGES \<Longrightarrow> api k page = Inr body \<Longrightarrow> length (orNoItems body) < MJ_PAGE_SIZE
     \<Longrightarrow> manualJournalLoop api c i page acc n (k, sl)
         = (Inr \<lparr> FetchResult.rows = acc @ concat (map (manualJournalRows c i) (orNoItems body)),
                   truncated = False, scanned = n + length (orNoItems body) \<rparr>, Suc k, sl)"
  by (simp add: manualJournalLoop_stop withRetry_callEndpoint_ok)

text \<open>
  Full pages up to the cap: the loop reads pages \<open>page\<close> to \<open>MAX_PAGES\<close> and no more, and
  reports a truncation.
\<close>

lemma manualJournalLoop_full_pages:
  assumes "\<forall>q. page \<le> q \<and> q \<le> MAX_PAGES \<longrightarrow>
             (\<exists>js. api (k + (q - page)) q = Inr (Some js) \<and> length js = MJ_PAGE_SIZE)"
    and "page \<le> Suc MAX_PAGES"
  shows "\<exists>fr. manualJournalLoop api c i page acc n (k, sl)
                 = (Inr fr, k + (Suc MAX_PAGES - page), sl)
             \<and> truncated fr \<and> scanned fr = n + (Suc MAX_PAGES - page) * MJ_PAGE_SIZE"
  using assms
proof (induction "Suc MAX_PAGES - page" arbitrary: page acc n k)
  case 0
  then have "\<not> page \<le> MAX_PAGES" "Suc MAX_PAGES - page = 0" by simp_all
  then show ?case by (simp add: manualJournalLoop_done)
next
  case (Suc m)
  then have le: "page \<le> MAX_PAGES" by simp
  with Suc.prems(1) obtain js where
    js: "api k page = Inr (Some js)" "length js = MJ_PAGE_SIZE"
    by (metis add_0_right diff_self_eq_0 order_refl)
  let ?acc' = "acc @ concat (map (manualJournalRows c i) js)"
  have step: "manualJournalLoop api c i page acc n (k, sl)
                = manualJournalLoop api c i (Suc page) ?acc' (n + length js) (Suc k, sl)"
    using manualJournalLoop_step[of page api "(k, sl)" "Some js" "(Suc k, sl)" c i acc n]
          le withRetry_callEndpoint_ok[of api k page "Some js" sl] js
    by (simp add: orNoItems_def)
  have next_pages: "\<forall>q. Suc page \<le> q \<and> q \<le> MAX_PAGES \<longrightarrow>
         (\<exists>js. api (Suc k + (q - Suc page)) q = Inr (Some js) \<and> length js = MJ_PAGE_SIZE)"
  proof (intro allI impI)
    fix q assume q: "Suc page \<le> q \<and> q \<le> MAX_PAGES"
    then have "k + (q - page) = Suc k + (q - Suc page)" by arith
    with Suc.prems(1) q show "\<exists>js. api (Suc k + (q - Suc page)) q = Inr (Some js)
                                   \<and> length js = MJ_PAGE_SIZE"
      by (metis Suc_leD)
  qed
  from Suc.hyps(2) le have m: "m = Suc MAX_PAGES - Suc page" by simp
  from Suc.hyps(1)[OF m next_pages, of ?acc' "n + length js"] le
  obtain fr where fr: "manualJournalLoop api c i (Suc page) ?acc' (n + length js) (Suc k, sl)
                         = (Inr fr, Suc k + (Suc MAX_PAGES - Suc page), sl)"
      "truncated fr" "scanned fr = n + length js + (Suc MAX_PAGES - Suc page) * MJ_PAGE_SIZE"
    by auto
  have cnt: "Suc MAX_PAGES - page = Suc (Suc MAX_PAGES - Suc page)" using le by simp
  show ?case
    using step fr js(2) by (simp add: cnt)
qed
subsection \<open>The aggregation\<close>

text \<open>The envelope of a call whose authentication succeeds, from the five settled promises.\<close>

lemma listXeroAccountTransactions_success:
  assumes "authenticate client = None"
  shows "listXeroAccountTransactions fe client c i st =
     \<lparr> result = Some
         \<lparr> rows = sortRows (map (enrichRow
                     (namesOrNone (fst (buildAccountNameMap (getAccounts client) (0, [])))))
                   (rowsOrNone (fst (fetchInvoiceRows (getInvoices client) c i st (0, [])))
                    @ rowsOrNone (fst (fetchCreditNoteRows (getCreditNotes client) c i st (0, [])))
                    @ rowsOrNone (fst (fetchBankTransactionRows (getBankTransactions client)
                                         c i st (0, [])))
                    @ journalRowsOrNone (fst (fetchManualJournalRows (getManualJournals client)
                                                c i st (0, []))))),
           hasMore = False, nextOffset = None,
           warnings =
             failureWarning fe ''Invoices''
               (fst (fetchInvoiceRows (getInvoices client) c i st (0, [])))
             @ failureWarning fe ''Credit Notes''
                 (fst (fetchCreditNoteRows (getCreditNotes client) c i st (0, [])))
             @ lookupWarning fe (fst (buildAccountNameMap (getAccounts client) (0, [])))
             @ failureWarning fe ''Bank Transactions''
                 (fst (fetchBankTransactionRows (getBankTransactions client) c i st (0, [])))
             @ journalWarnings fe
                 (fst (fetchManualJournalRows (getManualJournals client) c i st (0, []))) \<rparr>,
       isError = False, error = None \<rparr>"
  using assms
  by (simp add: listXeroAccountTransactions_def Let_def settleRows_def settleManualJournals_def
        rowsOrNone_def journalRowsOrNone_def namesOrNone_def failureWarning_def
        lookupWarning_def journalWarnings_def truncationWarning_def
      split: sum.splits)

lemma sortRows_Nil: "sortRows [] = []"
  by (simp add: sortRows_def)

text \<open>
  C9, as the code has it. A source type that is not the empty string and is not one of
  the seven known ones makes every extractor return empty at once, with the world
  unchanged: no page is fetched. When the authentication has succeeded, the aggregation
  then returns a success envelope with no rows and no validation error. (The empty string
  is falsy, so it counts as no source type at all.)
\<close>

theorem unrecognised_sourceType_empty:
  "st \<noteq> [] \<and> st \<notin> set sourceTypes \<longrightarrow>
     fetchInvoiceRows api1 c i (Some st) w = (Inr [], w)
   \<and> fetchCreditNoteRows api2 c i (Some st) w = (Inr [], w)
   \<and> fetchBankTransactionRows api3 c i (Some st) w = (Inr [], w)
   \<and> fetchManualJournalRows api4 c i (Some st) w
       = (Inr \<lparr> FetchResult.rows = [], truncated = False, scanned = 0 \<rparr>, w)
   \<and> (authenticate client = None \<longrightarrow>
        isError (listXeroAccountTransactions fe client c i (Some st)) = False
      \<and> error (listXeroAccountTransactions fe client c i (Some st)) = None
      \<and> (\<exists>ws. result (listXeroAccountTransactions fe client c i (Some st))
                 = Some \<lparr> rows = [], hasMore = False, nextOffset = None, warnings = ws \<rparr>))"
proof (intro impI)
  assume h: "st \<noteq> [] \<and> st \<notin> set sourceTypes"
  have ex: "fetchInvoiceRows a1 c i (Some st) v = (Inr [], v)"
      "fetchCreditNoteRows a2 c i (Some st) v = (Inr [], v)"
      "fetchBankTransactionRows a3 c i (Some st) v = (Inr [], v)"
      "fetchManualJournalRows a4 c i (Some st) v
         = (Inr \<lparr> FetchResult.rows = [], truncated = False, scanned = 0 \<rparr>, v)"
    for a1 a2 a3 a4 v
    using h
    by (simp_all add: fetchInvoiceRows_def fetchCreditNoteRows_def fetchBankTransactionRows_def
          fetchManualJournalRows_def truthy_def sourceTypes_def)
  show "fetchInvoiceRows api1 c i (Some st) w = (Inr [], w)
   \<and> fetchCreditNoteRows api2 c i (Some st) w = (Inr [], w)
   \<and> fetchBankTransactionRows api3 c i (Some st) w = (Inr [], w)
   \<and> fetchManualJournalRows api4 c i (Some st) w
       = (Inr \<lparr> FetchResult.rows = [], truncated = False, scanned = 0 \<rparr>, w)
   \<and> (authenticate client = None \<longrightarrow>
        isError (listXeroAccountTransactions fe client c i (Some st)) = False
      \<and> error (listXeroAccountTransactions fe client c i (Some st)) = None
      \<and> (\<exists>ws. result (listXeroAccountTransactions fe client c i (Some st))
                 = Some \<lparr> rows = [], hasMore = False, nextOffset = None, warnings = ws \<rparr>))"
    using ex by (simp add: listXeroAccountTransactions_success rowsOrNone_def
                    journalRowsOrNone_def sortRows_Nil)
qed

text \<open>Facts for running the model on a concrete client.\<close>

lemmas run_defs =
  listXeroAccountTransactions_def fetchInvoiceRows_def fetchCreditNoteRows_def
  fetchBankTransactionRows_def fetchManualJournalRows_def buildAccountNameMap_def
  invoiceLoop_short_page creditNoteLoop_short_page bankTransactionLoop_short_page
  manualJournalLoop_short_page withRetry_def withRetry_loop_ok
  settleRows_def settleManualJournals_def
  onePage_def accountsPage_def orNoItems_def MAX_PAGES_def PAGE_SIZE_def MJ_PAGE_SIZE_def
  truthy_def

lemmas row_defs =
  invoiceRows_def invoiceLineRow_def creditNoteRows_def creditNoteLineRow_def
  bankTransactionRows_def bankLineRow_def bankSideRow_def manualJournalRows_def
  manualJournalLineRow_def journalRelatedAccount_def lineMatchesAccount_def hasLength_def
  arrayIncludes_def orEmpty_def orZero_def contactNameOf_def formatDate_def
  bankAcctCodeOf_def bankAcctNameOf_def bankAcctIdOf_def trim_def isWhiteSpace_def

lemmas finish_defs =
  enrichRow_def sortRows_def compareRows_def localeCompare_def resultRows_def resultWarnings_def

theorem unrecognised_sourceType_empty_witness:
  "''BOGUS'' \<noteq> [] \<and> ''BOGUS'' \<notin> set sourceTypes
   \<and> fetchInvoiceRows (onePage [invoiceOf ''ACCPAY'' ''2024-01-01'' [lineOn ''400'' 100]])
        None None (Some ''BOGUS'') (0, []) = (Inr [], (0, []))
   \<and> resultRows (listXeroAccountTransactions plainFormat
        (invoicesOnlyClient [invoiceOf ''ACCPAY'' ''2024-01-01'' [lineOn ''400'' 100]])
        None None (Some ''BOGUS'')) = []
   \<and> isError (listXeroAccountTransactions plainFormat
        (invoicesOnlyClient [invoiceOf ''ACCPAY'' ''2024-01-01'' [lineOn ''400'' 100]])
        None None (Some ''BOGUS'')) = False"
  using unrecognised_sourceType_empty [where st = "''BOGUS''"
          and ?api1.0 = "onePage [invoiceOf ''ACCPAY'' ''2024-01-01'' [lineOn ''400'' 100]]"
          and c = None and i = None and w = "(0, [])"
          and ?api2.0 = "onePage []" and ?api3.0 = "onePage []" and ?api4.0 = "onePage []"
          and client = "invoicesOnlyClient [invoiceOf ''ACCPAY'' ''2024-01-01'' [lineOn ''400'' 100]]"
          and fe = plainFormat]
  by (auto simp: sourceTypes_def invoicesOnlyClient_def resultRows_def)

text \<open>
  C9 as stated fails for the empty string: it is a supplied source type that is not one
  of the seven, and the invoice extractor fetches a page and the aggregation has a row.
\<close>

theorem empty_sourceType_counterexample:
  "[] \<notin> set sourceTypes
   \<and> snd (fetchInvoiceRows (onePage [invoiceOf ''ACCPAY'' ''2024-01-01'' [lineOn ''400'' 100]])
        None None (Some []) (0, [])) = (1, [])
   \<and> map accountCode (resultRows (listXeroAccountTransactions plainFormat
        (invoicesOnlyClient [invoiceOf ''ACCPAY'' ''2024-01-01'' [lineOn ''400'' 100]])
        None None (Some []))) = [Some ''400'']"
  by (simp add: sourceTypes_def invoicesOnlyClient_def run_defs row_defs finish_defs
                invoiceOf_def lineOn_def)

subsection \<open>Signs and labels of the document lines\<close>



subsection \<open>The related account of a manual journal\<close>

lemma enrichRow_empty_related:
  "relatedAccount r = Some [] \<Longrightarrow> relatedAccount (enrichRow m r) = Some []"
  by (simp add: enrichRow_def truthy_def Let_def)

lemma trim_Nil: "trim [] = []"
  by (simp add: trim_def)

text \<open>
  C10. When the first line of a journal that the filter does not match has no account
  code, every row of the journal has the empty string as its related account, and the
  enrichment leaves it so. A row of a journal has a null related account only when the
  filter matches every line of the journal.
\<close>

theorem journal_related_account:
  "(otherLines c i mj = l # rest \<and> jl_accountCode l = None \<and> r \<in> set (manualJournalRows c i mj)
      \<longrightarrow> relatedAccount r = Some [] \<and> relatedAccount (enrichRow m r) = Some [])
   \<and> (r' \<in> set (manualJournalRows c' i' mj') \<and> relatedAccount r' = None
      \<longrightarrow> (\<forall>l' \<in> set (orNoItems (mj_journalLines mj')).
             lineMatchesAccount (jl_accountCode l') (jl_accountID l') c' i'))"
proof -
  have first: "relatedAccount r = Some [] \<and> relatedAccount (enrichRow m r) = Some []"
    if h: "otherLines c i mj = l # rest \<and> jl_accountCode l = None
           \<and> r \<in> set (manualJournalRows c i mj)"
  proof -
    from h have "journalRelatedAccount c i mj = Some []"
      by (simp add: journalRelatedAccount_def otherLines_def orEmpty_def trim_Nil)
    with h have "relatedAccount r = Some []"
      by (auto simp: manualJournalRows_def manualJournalLineRow_def Let_def)
    then show ?thesis by (simp add: enrichRow_empty_related)
  qed
  have second: "\<forall>l' \<in> set (orNoItems (mj_journalLines mj')).
                  lineMatchesAccount (jl_accountCode l') (jl_accountID l') c' i'"
    if h: "r' \<in> set (manualJournalRows c' i' mj') \<and> relatedAccount r' = None"
  proof -
    from h have "journalRelatedAccount c' i' mj' = None"
      by (auto simp: manualJournalRows_def manualJournalLineRow_def Let_def)
    then have "filter (\<lambda>l. \<not> lineMatchesAccount (jl_accountCode l) (jl_accountID l) c' i')
                 (orNoItems (mj_journalLines mj')) = []"
      by (simp add: journalRelatedAccount_def Let_def split: list.splits)
    then show ?thesis by (simp add: filter_empty_conv)
  qed
  from first second show ?thesis by blast
qed

theorem journal_related_account_witness:
  "map relatedAccount (manualJournalRows (Some [''400'']) None
      (journalOf ''2024-02-01'' [journalLineOn (Some ''400'') 50, journalLineOn None (- 50)]))
     = [Some []]
   \<and> map relatedAccount (map (enrichRow [[] \<mapsto> ''Nameless''])
        (manualJournalRows (Some [''400'']) None
          (journalOf ''2024-02-01'' [journalLineOn (Some ''400'') 50, journalLineOn None (- 50)])))
     = [Some []]
   \<and> map relatedAccount (manualJournalRows None None
        (journalOf ''2024-02-01'' [journalLineOn (Some ''400'') 50])) = [None]"
  using journal_related_account [of "Some [''400'']" None
          "journalOf ''2024-02-01'' [journalLineOn (Some ''400'') 50, journalLineOn None (- 50)]"
          "journalLineOn None (- 50)" "[]"
          "manualJournalLineRow
             (journalOf ''2024-02-01'' [journalLineOn (Some ''400'') 50, journalLineOn None (- 50)])
             (Some []) (journalLineOn (Some ''400'') 50)"
          "[[] \<mapsto> ''Nameless'']"
          "manualJournalLineRow (journalOf ''2024-02-01'' [journalLineOn (Some ''400'') 50])
             None (journalLineOn (Some ''400'') 50)"
          None None "journalOf ''2024-02-01'' [journalLineOn (Some ''400'') 50]"]
  by (simp add: otherLines_def manualJournalRows_def journalRelatedAccount_def journalOf_def
        journalLineOn_def orNoItems_def lineMatchesAccount_def hasLength_def truthy_def
        arrayIncludes_def manualJournalLineRow_def orEmpty_def orZero_def trim_def enrichRow_def
        Let_def)

subsection \<open>Sorting\<close>


lemma set_insertRow: "set (insertRow r xs) = insert r (set xs)"
  by (induction xs) auto

lemma mset_insertRow: "mset (insertRow r xs) = add_mset r (mset xs)"
  by (induction xs) auto


lemma mset_sortRows: "mset (sortRows rs) = mset rs"
  by (induction rs) (simp_all add: sortRows_def mset_insertRow)




subsection \<open>Partial failure\<close>

text \<open>
  C5. When the bank-transaction extractor fails and the invoice, credit-note and
  manual-journal extractors succeed, the aggregation returns a success envelope; its rows
  are the enriched rows of those three sources and no other; its warnings are the warning
  of the account lookup if that failed, then the one warning that names Bank Transactions
  with the formatted reason, then the truncation warning of the journals if any.
\<close>

theorem bank_failure_is_partial:
  "authenticate client = None
   \<and> fetchInvoiceRows (getInvoices client) c i st (0, []) = (Inr ri, w1)
   \<and> fetchCreditNoteRows (getCreditNotes client) c i st (0, []) = (Inr rc, w2)
   \<and> fetchBankTransactionRows (getBankTransactions client) c i st (0, []) = (Inl e, w3)
   \<and> fetchManualJournalRows (getManualJournals client) c i st (0, []) = (Inr fr, w4)
   \<longrightarrow> isError (listXeroAccountTransactions fe client c i st) = False
     \<and> error (listXeroAccountTransactions fe client c i st) = None
     \<and> result (listXeroAccountTransactions fe client c i st) \<noteq> None
     \<and> mset (resultRows (listXeroAccountTransactions fe client c i st))
         = mset (map (enrichRow (namesOrNone (fst (buildAccountNameMap (getAccounts client) (0, [])))))
                  (ri @ rc @ FetchResult.rows fr))
     \<and> resultWarnings (listXeroAccountTransactions fe client c i st)
         = lookupWarning fe (fst (buildAccountNameMap (getAccounts client) (0, [])))
           @ [''Bank Transactions endpoint failed: '' @ fe e]
           @ (if truncated fr then [truncationWarning (scanned fr)] else [])"
  by (auto simp: listXeroAccountTransactions_success resultRows_def resultWarnings_def
        mset_sortRows rowsOrNone_def journalRowsOrNone_def failureWarning_def journalWarnings_def)

lemma not_rateLimit_text: "\<not> isRateLimit (ErrText s)"
  by (simp add: isRateLimit_def parseXeroError_def)

lemmas fail_defs =
  failing_def invoiceLoop_broken creditNoteLoop_broken bankTransactionLoop_broken
  not_rateLimit_text

theorem bank_failure_is_partial_witness:
  "isError (listXeroAccountTransactions plainFormat bankDownClient None None None) = False
   \<and> resultWarnings (listXeroAccountTransactions plainFormat bankDownClient None None None)
       = [''Bank Transactions endpoint failed: ECONNRESET'']
   \<and> size (mset (resultRows (listXeroAccountTransactions plainFormat bankDownClient None None None)))
       = 4"
proof -
  let ?c = bankDownClient
  have a: "authenticate ?c = None" by (simp add: bankDownClient_def)
  have i: "fetchInvoiceRows (getInvoices ?c) None None None (0, [])
             = (Inr (invoiceRows None None (invoiceOf ''ACCPAY'' ''2024-01-01'' [lineOn ''400'' 10])),
                (1, []))"
    by (simp add: bankDownClient_def run_defs)
  have n: "fetchCreditNoteRows (getCreditNotes ?c) None None None (0, [])
             = (Inr (creditNoteRows None None
                       (creditNoteOf ''ACCPAYCREDIT'' ''2024-01-05'' [lineOn ''400'' 4])), (1, []))"
    by (simp add: bankDownClient_def run_defs)
  have b: "fetchBankTransactionRows (getBankTransactions ?c) None None None (0, [])
             = (Inl (ErrText ''ECONNRESET''), (1, []))"
    by (simp add: bankDownClient_def run_defs fail_defs)
  have j: "fetchManualJournalRows (getManualJournals ?c) None None None (0, [])
             = (Inr \<lparr> FetchResult.rows = manualJournalRows None None
                         (journalOf ''2024-01-03'' [journalLineOn (Some ''400'') 7,
                                                   journalLineOn (Some ''800'') (- 7)]),
                       truncated = False, scanned = 1 \<rparr>, (1, []))"
    by (simp add: bankDownClient_def run_defs)
  have l: "lookupWarning plainFormat (fst (buildAccountNameMap (getAccounts ?c) (0, []))) = []"
    by (simp add: bankDownClient_def run_defs lookupWarning_def)
  from bank_failure_is_partial [of ?c None None None _ "(1, [])" _ "(1, [])"
         "ErrText ''ECONNRESET''" "(1, [])" _ "(1, [])" plainFormat] a i n b j l
  show ?thesis
    by (simp add: plainFormat_def invoiceRows_def creditNoteRows_def manualJournalRows_def
          invoiceOf_def creditNoteOf_def journalOf_def journalLineOn_def lineOn_def
          orNoItems_def lineMatchesAccount_def hasLength_def)
qed

subsection \<open>Truncation of the manual journals\<close>

lemma showNat_small: "n < 10 \<Longrightarrow> showNat n = [digitChar n]"
  by (simp add: showNat.simps)

lemma showNat_big: "10 \<le> n \<Longrightarrow> showNat n = showNat (n div 10) @ [digitChar (n mod 10)]"
  by (subst showNat.simps) simp

lemma truncationWarning_50000:
  "truncationWarning 50000 =
     ''Manual Journals results may be incomplete: scanned 50000 journals but hit the pagination limit. Try narrowing the date range for complete results.''"
  by (simp add: truncationWarning_def showNat_small showNat_big digitChar_def)

text \<open>Fifty full pages from the first call on: the extractor stops at the cap.\<close>

lemma fetchManualJournalRows_full_pages:
  assumes pages: "\<forall>k<50. \<exists>js. api k (Suc k) = Inr (Some js) \<and> length js = 1000"
    and st: "st = None \<or> st = Some ''MANJOURNAL''"
  shows "\<exists>fr. fetchManualJournalRows api c i st (0, []) = (Inr fr, 50, [])
             \<and> truncated fr \<and> scanned fr = 50000"
proof -
  have "\<forall>q. 1 \<le> q \<and> q \<le> MAX_PAGES \<longrightarrow>
          (\<exists>js. api (0 + (q - 1)) q = Inr (Some js) \<and> length js = MJ_PAGE_SIZE)"
  proof (intro allI impI)
    fix q assume q: "1 \<le> q \<and> q \<le> MAX_PAGES"
    then have "q - 1 < 50" "Suc (q - 1) = q" by (auto simp: MAX_PAGES_def)
    with pages show "\<exists>js. api (0 + (q - 1)) q = Inr (Some js) \<and> length js = MJ_PAGE_SIZE"
      by (metis add_0 MJ_PAGE_SIZE_def)
  qed
  from manualJournalLoop_full_pages
         [where page = 1 and api = api and k = 0 and c = c and i = i and acc = "[]"
            and n = 0 and sl = "[]"] this
  obtain fr where "manualJournalLoop api c i 1 [] 0 (0, []) = (Inr fr, 0 + (Suc MAX_PAGES - 1), [])"
    "truncated fr" "scanned fr = 0 + (Suc MAX_PAGES - 1) * MJ_PAGE_SIZE"
    by (auto simp: MAX_PAGES_def)
  moreover from st have "fetchManualJournalRows api c i st (0, [])
                          = manualJournalLoop api c i 1 [] 0 (0, [])"
    by (auto simp: fetchManualJournalRows_def truthy_def)
  ultimately show ?thesis by (simp add: MAX_PAGES_def MJ_PAGE_SIZE_def)
qed

text \<open>
  C4, as the code has it. When the manual-journal endpoint answers fifty consecutive
  calls with full pages of 1000 journals, the extractor stops at the cap of fifty pages
  after fifty calls: its result has \<open>truncated\<close> set and 50000 journals scanned, and the
  warnings of the aggregation include the one that names the count 50000 and recommends a
  narrower range.
\<close>

theorem journal_truncation_at_cap:
  "(\<forall>k<50. \<exists>js. api k (Suc k) = Inr (Some js) \<and> length js = 1000)
   \<and> (st = None \<or> st = Some ''MANJOURNAL'')
   \<longrightarrow> (\<exists>fr. fetchManualJournalRows api c i st (0, []) = (Inr fr, 50, [])
              \<and> truncated fr \<and> scanned fr = 50000)
     \<and> (authenticate client = None \<and> getManualJournals client = api
          \<longrightarrow> ''Manual Journals results may be incomplete: scanned 50000 journals but hit the pagination limit. Try narrowing the date range for complete results.''
                \<in> set (resultWarnings (listXeroAccountTransactions fe client c i st)))"
proof (intro impI)
  assume h: "(\<forall>k<50. \<exists>js. api k (Suc k) = Inr (Some js) \<and> length js = 1000)
             \<and> (st = None \<or> st = Some ''MANJOURNAL'')"
  then obtain fr where fr: "fetchManualJournalRows api c i st (0, []) = (Inr fr, 50, [])"
      "truncated fr" "scanned fr = 50000"
    using fetchManualJournalRows_full_pages[of api st c i] by blast
  have "truncationWarning 50000 \<in> set (resultWarnings (listXeroAccountTransactions fe client c i st))"
    if "authenticate client = None \<and> getManualJournals client = api"
    using that fr
    by (simp add: listXeroAccountTransactions_success resultWarnings_def journalWarnings_def)
  with fr show "(\<exists>fr. fetchManualJournalRows api c i st (0, []) = (Inr fr, 50, [])
              \<and> truncated fr \<and> scanned fr = 50000)
     \<and> (authenticate client = None \<and> getManualJournals client = api
          \<longrightarrow> ''Manual Journals results may be incomplete: scanned 50000 journals but hit the pagination limit. Try narrowing the date range for complete results.''
                \<in> set (resultWarnings (listXeroAccountTransactions fe client c i st)))"
    by (auto simp: truncationWarning_50000)
qed

lemma fullJournalPages_answers:
  "\<forall>k<50. \<exists>js. getManualJournals fullJournalPagesClient k (Suc k) = Inr (Some js)
                 \<and> length js = 1000"
  by (simp add: fullJournalPagesClient_def onePage_def)

theorem journal_truncation_at_cap_witness:
  "(getManualJournals fullJournalPagesClient 50 51 = Inr (Some (replicate 1000 blankJournal)))
   \<and> snd (fetchManualJournalRows (getManualJournals fullJournalPagesClient) None None None (0, []))
       = (50, [])
   \<and> ''Manual Journals results may be incomplete: scanned 50000 journals but hit the pagination limit. Try narrowing the date range for complete results.''
       \<in> set (resultWarnings (listXeroAccountTransactions plainFormat fullJournalPagesClient
                                 None None None))"
  using journal_truncation_at_cap [of "getManualJournals fullJournalPagesClient" None None None
          fullJournalPagesClient plainFormat] fullJournalPages_answers
  by (auto simp: fullJournalPagesClient_def onePage_def)

text \<open>
  C4 as stated fails: with 51 (and more) consecutive full pages on offer, only fifty are
  asked for, the count scanned is 50000 and not 51000, and the one warning does not
  contain 51000.
\<close>

theorem journal_truncation_51000_counterexample:
  "getManualJournals fullJournalPagesClient 50 51 = Inr (Some (replicate 1000 blankJournal))
   \<and> length (replicate 1000 blankJournal) = 1000
   \<and> snd (fetchManualJournalRows (getManualJournals fullJournalPagesClient) None None None (0, []))
       = (50, [])
   \<and> resultWarnings (listXeroAccountTransactions plainFormat fullJournalPagesClient None None None)
       = [''Manual Journals results may be incomplete: scanned 50000 journals but hit the pagination limit. Try narrowing the date range for complete results.'']
   \<and> \<not> strIncludes ''Manual Journals results may be incomplete: scanned 50000 journals but hit the pagination limit. Try narrowing the date range for complete results.'' ''51000''"
proof -
  obtain fr where fr:
      "fetchManualJournalRows (getManualJournals fullJournalPagesClient) None None None (0, [])
         = (Inr fr, 50, [])" "truncated fr" "scanned fr = 50000"
    using fetchManualJournalRows_full_pages
            [of "getManualJournals fullJournalPagesClient" None None None]
          fullJournalPages_answers
    by blast
  have a: "authenticate fullJournalPagesClient = None"
    by (simp add: fullJournalPagesClient_def)
  have others:
    "fst (fetchInvoiceRows (getInvoices fullJournalPagesClient) None None None (0, [])) = Inr []"
    "fst (fetchCreditNoteRows (getCreditNotes fullJournalPagesClient) None None None (0, [])) = Inr []"
    "fst (fetchBankTransactionRows (getBankTransactions fullJournalPagesClient) None None None (0, []))
       = Inr []"
    "fst (buildAccountNameMap (getAccounts fullJournalPagesClient) (0, [])) = Inr Map.empty"
    by (simp_all add: fullJournalPagesClient_def run_defs)
  have w: "resultWarnings (listXeroAccountTransactions plainFormat fullJournalPagesClient None None None)
             = [truncationWarning 50000]"
    using fr others
    by (simp add: listXeroAccountTransactions_success[OF a] resultWarnings_def
          journalWarnings_def failureWarning_def lookupWarning_def)
  have s: "\<not> strIncludes ''Manual Journals results may be incomplete: scanned 50000 journals but hit the pagination limit. Try narrowing the date range for complete results.'' ''51000''"
    by simp
  show ?thesis
    using fr w s by (simp add: truncationWarning_50000 fullJournalPagesClient_def onePage_def)
qed

subsection \<open>The two sides of a bank transaction\<close>

lemma fetchBankTransactionRows_one:
  "api k 1 = Inr (Some [bt]) \<Longrightarrow> st = None \<or> st = Some ''CASHPAID'' \<or> st = Some ''CASHREC''
     \<Longrightarrow> fetchBankTransactionRows api c i st (k, sl)
         = (Inr (bankTransactionRows c i bt), Suc k, sl)"
  by (auto simp: fetchBankTransactionRows_def truthy_def bankTransactionLoop_short_page
                 MAX_PAGES_def PAGE_SIZE_def orNoItems_def)

text \<open>
  C2, as the code has it. Take a SPEND transaction with total 100 on the bank account
  090, which the filter matches, and with the one line item on account 400 for 100. When
  the filter matches the line's account 400 as well, the transaction gives exactly two
  rows: one for account 400 with a debit of 100 and no credit, then one for account 090
  with a credit of 100, no debit and the related account 400. When the filter does not
  match account 400, it gives only the row of account 090. Either way these are the rows
  of the extractor when the transaction is the one page.
\<close>

theorem bank_spend_two_sides:
  "bt_type bt = Some ''SPEND'' \<and> bt_total bt = Some 100
   \<and> bt_bankAccount bt = Some ba \<and> ba_code ba = Some ''090''
   \<and> bt_lineItems bt = Some [li] \<and> li_accountCode li = Some ''400''
   \<and> li_lineAmount li = Some 100
   \<and> lineMatchesAccount (Some ''090'') (ba_accountID ba) c i
   \<longrightarrow> (lineMatchesAccount (Some ''400'') (li_accountID li) c i
          \<longrightarrow> bankTransactionRows c i bt = [bankLineRow bt li, bankSideRow bt])
     \<and> (\<not> lineMatchesAccount (Some ''400'') (li_accountID li) c i
          \<longrightarrow> bankTransactionRows c i bt = [bankSideRow bt])
     \<and> accountCode (bankLineRow bt li) = Some ''400''
     \<and> debit (bankLineRow bt li) = Some 100 \<and> credit (bankLineRow bt li) = None
     \<and> accountCode (bankSideRow bt) = Some ''090''
     \<and> credit (bankSideRow bt) = Some 100 \<and> debit (bankSideRow bt) = None
     \<and> relatedAccount (bankSideRow bt) = Some ''400''
     \<and> (api k 1 = Inr (Some [bt])
          \<longrightarrow> fetchBankTransactionRows api c i None (k, sl)
                = (Inr (bankTransactionRows c i bt), Suc k, sl))"
  by (auto simp: bankTransactionRows_def bankLineRow_def bankSideRow_def bankAcctCodeOf_def
        bankAcctIdOf_def orNoItems_def orEmpty_def orZero_def Let_def
        fetchBankTransactionRows_one)

theorem bank_spend_two_sides_witness:
  "map accountCode (rowsOrNone (fst (fetchBankTransactionRows (onePage [spend100])
      (Some [''090'', ''400'']) None None (0, [])))) = [Some ''400'', Some ''090'']
   \<and> map debit (rowsOrNone (fst (fetchBankTransactionRows (onePage [spend100])
      (Some [''090'', ''400'']) None None (0, [])))) = [Some 100, None]
   \<and> map credit (rowsOrNone (fst (fetchBankTransactionRows (onePage [spend100])
      (Some [''090'', ''400'']) None None (0, [])))) = [None, Some 100]
   \<and> map relatedAccount (rowsOrNone (fst (fetchBankTransactionRows (onePage [spend100])
      (Some [''090'', ''400'']) None None (0, []))))
       = [Some ''090 - Business Bank Account'', Some ''400'']"
  using bank_spend_two_sides [of spend100 account090 "lineOn ''400'' 100"
          "Some [''090'', ''400'']" None "onePage [spend100]" 0 "[]"]
  by (simp add: spend100_def account090_def lineOn_def onePage_def rowsOrNone_def
        lineMatchesAccount_def hasLength_def truthy_def arrayIncludes_def
        bankLineRow_def bankAcctCodeOf_def bankAcctNameOf_def orEmpty_def orZero_def
        trim_def isWhiteSpace_def)

text \<open>
  C2 as stated fails: with the filter on account 090 alone, the bank account matches the
  filter and the extractor gives one row, not two.
\<close>

theorem bank_spend_one_row_counterexample:
  "lineMatchesAccount (Some ''090'') (Some ''ba-090'') (Some [''090'']) None
   \<and> map accountCode (rowsOrNone (fst (fetchBankTransactionRows (onePage [spend100])
        (Some [''090'']) None None (0, [])))) = [Some ''090'']
   \<and> map credit (rowsOrNone (fst (fetchBankTransactionRows (onePage [spend100])
        (Some [''090'']) None None (0, [])))) = [Some 100]"
  by (simp add: run_defs row_defs rowsOrNone_def spend100_def account090_def lineOn_def)

subsection \<open>Debit, credit, net, tax and gross\<close>

lemma invoiceLineRow_ok: "lineRowOk (invoiceLineRow invoice li)"
  by (simp add: lineRowOk_def invoiceLineRow_def Let_def)

lemma creditNoteLineRow_ok: "lineRowOk (creditNoteLineRow cn li)"
  by (simp add: lineRowOk_def creditNoteLineRow_def Let_def)

lemma bankLineRow_ok: "lineRowOk (bankLineRow bt li)"
  by (simp add: lineRowOk_def bankLineRow_def Let_def)

lemma manualJournalLineRow_ok: "lineRowOk (manualJournalLineRow mj rel l)"
  by (simp add: lineRowOk_def manualJournalLineRow_def Let_def)

lemma bankSideRow_ok: "bankSideOk bt (bankSideRow bt)"
  by (simp add: bankSideOk_def bankSideRow_def Let_def)

lemma lineRowOk_enrichRow: "lineRowOk (enrichRow m r) = lineRowOk r"
  by (simp add: lineRowOk_def enrichRow_def Let_def split: option.splits)

lemma bankSideOk_enrichRow: "bankSideOk bt (enrichRow m r) = bankSideOk bt r"
  by (simp add: bankSideOk_def enrichRow_def Let_def split: option.splits)

lemma invoiceRows_ok: "r \<in> set (concat (map (invoiceRows c i) docs)) \<Longrightarrow> lineRowOk r"
  by (auto simp: invoiceRows_def invoiceLineRow_ok)

lemma creditNoteRows_ok: "r \<in> set (concat (map (creditNoteRows c i) docs)) \<Longrightarrow> lineRowOk r"
  by (auto simp: creditNoteRows_def creditNoteLineRow_ok)

lemma manualJournalRows_ok: "r \<in> set (concat (map (manualJournalRows c i) docs)) \<Longrightarrow> lineRowOk r"
  by (auto simp: manualJournalRows_def manualJournalLineRow_ok Let_def)

lemma bankTransactionRows_ok:
  "r \<in> set (concat (map (bankTransactionRows c i) docs))
     \<Longrightarrow> lineRowOk r \<or> (\<exists>bt. r = bankSideRow bt \<and> bankSideOk bt r)"
  by (auto simp: bankTransactionRows_def bankLineRow_ok bankSideRow_ok split: if_splits)

lemma fetchInvoiceRows_ok:
  "fetchInvoiceRows api c i st w = (Inr rs, w') \<Longrightarrow> r \<in> set rs \<Longrightarrow> lineRowOk r"
  using invoiceLoop_rows[of api c i 1 "[]" w rs w'] invoiceRows_ok[of r c i]
  by (auto simp: fetchInvoiceRows_def split: if_splits)

lemma fetchCreditNoteRows_ok:
  "fetchCreditNoteRows api c i st w = (Inr rs, w') \<Longrightarrow> r \<in> set rs \<Longrightarrow> lineRowOk r"
  using creditNoteLoop_rows[of api c i 1 "[]" w rs w'] creditNoteRows_ok[of r c i]
  by (auto simp: fetchCreditNoteRows_def split: if_splits)

lemma fetchManualJournalRows_ok:
  "fetchManualJournalRows api c i st w = (Inr fr, w') \<Longrightarrow> r \<in> set (FetchResult.rows fr)
     \<Longrightarrow> lineRowOk r"
  using manualJournalLoop_rows[of api c i 1 "[]" 0 w fr w'] manualJournalRows_ok[of r c i]
  by (auto simp: fetchManualJournalRows_def split: if_splits)

lemma fetchBankTransactionRows_ok:
  "fetchBankTransactionRows api c i st w = (Inr rs, w') \<Longrightarrow> r \<in> set rs
     \<Longrightarrow> lineRowOk r \<or> (\<exists>bt. r = bankSideRow bt \<and> bankSideOk bt r)"
  using bankTransactionLoop_rows[of api c i 1 "[]" w rs w'] bankTransactionRows_ok[of r c i]
  by (auto simp: fetchBankTransactionRows_def split: if_splits)

lemma settled_invoice_rows_ok:
  "x \<in> set (rowsOrNone (fst (fetchInvoiceRows api c i st w))) \<Longrightarrow> lineRowOk x"
proof -
  assume x: "x \<in> set (rowsOrNone (fst (fetchInvoiceRows api c i st w)))"
  obtain r v where f: "fetchInvoiceRows api c i st w = (r, v)"
    by (cases "fetchInvoiceRows api c i st w")
  with x show ?thesis
    by (cases r) (auto simp: rowsOrNone_def dest: fetchInvoiceRows_ok)
qed

lemma settled_credit_note_rows_ok:
  "x \<in> set (rowsOrNone (fst (fetchCreditNoteRows api c i st w))) \<Longrightarrow> lineRowOk x"
proof -
  assume x: "x \<in> set (rowsOrNone (fst (fetchCreditNoteRows api c i st w)))"
  obtain r v where f: "fetchCreditNoteRows api c i st w = (r, v)"
    by (cases "fetchCreditNoteRows api c i st w")
  with x show ?thesis
    by (cases r) (auto simp: rowsOrNone_def dest: fetchCreditNoteRows_ok)
qed

lemma settled_journal_rows_ok:
  "x \<in> set (journalRowsOrNone (fst (fetchManualJournalRows api c i st w))) \<Longrightarrow> lineRowOk x"
proof -
  assume x: "x \<in> set (journalRowsOrNone (fst (fetchManualJournalRows api c i st w)))"
  obtain r v where f: "fetchManualJournalRows api c i st w = (r, v)"
    by (cases "fetchManualJournalRows api c i st w")
  with x show ?thesis
    by (cases r) (auto simp: journalRowsOrNone_def dest: fetchManualJournalRows_ok)
qed

lemma settled_bank_rows_ok:
  "x \<in> set (rowsOrNone (fst (fetchBankTransactionRows api c i st w)))
     \<Longrightarrow> lineRowOk x \<or> (\<exists>bt. bankSideOk bt x)"
proof -
  assume x: "x \<in> set (rowsOrNone (fst (fetchBankTransactionRows api c i st w)))"
  obtain r v where f: "fetchBankTransactionRows api c i st w = (r, v)"
    by (cases "fetchBankTransactionRows api c i st w")
  show ?thesis
  proof (cases r)
    case (Inl e)
    with x f show ?thesis by (simp add: rowsOrNone_def)
  next
    case (Inr rs)
    with x f have "x \<in> set rs" by (simp add: rowsOrNone_def)
    from fetchBankTransactionRows_ok[OF f[unfolded Inr] this] show ?thesis by blast
  qed
qed

lemma set_sortRows: "set (sortRows rs) = set rs"
  by (induction rs) (simp_all add: sortRows_def set_insertRow)

lemma resultRows_ok:
  assumes r: "r \<in> set (resultRows (listXeroAccountTransactions fe client c i st))"
  shows "lineRowOk r \<or> (\<exists>bt. bankSideOk bt r)"
proof (cases "authenticate client")
  case (Some e)
  then have "resultRows (listXeroAccountTransactions fe client c i st) = []"
    by (simp add: listXeroAccountTransactions_def resultRows_def)
  with r show ?thesis by simp
next
  case None
  let ?m = "namesOrNone (fst (buildAccountNameMap (getAccounts client) (0, [])))"
  let ?a = "rowsOrNone (fst (fetchInvoiceRows (getInvoices client) c i st (0, [])))"
  let ?b = "rowsOrNone (fst (fetchCreditNoteRows (getCreditNotes client) c i st (0, [])))"
  let ?d = "rowsOrNone (fst (fetchBankTransactionRows (getBankTransactions client) c i st (0, [])))"
  let ?j = "journalRowsOrNone (fst (fetchManualJournalRows (getManualJournals client)
                                      c i st (0, [])))"
  have "resultRows (listXeroAccountTransactions fe client c i st)
          = sortRows (map (enrichRow ?m) (?a @ ?b @ ?d @ ?j))"
    by (simp add: listXeroAccountTransactions_success[OF None] resultRows_def)
  with r have "r \<in> enrichRow ?m ` (set ?a \<union> set ?b \<union> set ?d \<union> set ?j)"
    by (simp add: set_sortRows image_Un)
  then obtain x where x: "r = enrichRow ?m x" "x \<in> set ?a \<union> set ?b \<union> set ?d \<union> set ?j"
    by blast
  from x(2) consider "x \<in> set ?a" | "x \<in> set ?b" | "x \<in> set ?d" | "x \<in> set ?j"
    by auto
  then have "lineRowOk x \<or> (\<exists>bt. bankSideOk bt x)"
  proof cases
    case 1
    then show ?thesis by (simp add: settled_invoice_rows_ok)
  next
    case 2
    then show ?thesis by (simp add: settled_credit_note_rows_ok)
  next
    case 3
    then show ?thesis by (rule settled_bank_rows_ok)
  next
    case 4
    then show ?thesis by (simp add: settled_journal_rows_ok)
  qed
  with x(1) show ?thesis by (simp add: lineRowOk_enrichRow bankSideOk_enrichRow)
qed

text \<open>
  C1, as the code has it. Every row of the invoice, credit-note and manual-journal
  extractors, and every line-item row of the bank-transaction extractor, has its gross
  equal to its net plus its tax, has exactly one of debit and credit set when its net is
  not zero, and the one that is set is positive and is the magnitude of the net. Every
  other row of the bank-transaction extractor is the bank side of a transaction: its net,
  tax and gross are the subtotal, total tax and total that the API gave (so its gross is
  its net plus its tax when the API's total is its subtotal plus its total tax), exactly
  one of debit and credit is set when the total is not zero, and the one that is set is
  positive and is the magnitude of the total. The rows of the aggregation are of these
  two kinds.
\<close>

theorem row_amounts:
  "(fetchInvoiceRows api1 c i st w = (Inr rs1, w1) \<longrightarrow> (\<forall>r \<in> set rs1. lineRowOk r))
   \<and> (fetchCreditNoteRows api2 c i st w = (Inr rs2, w2) \<longrightarrow> (\<forall>r \<in> set rs2. lineRowOk r))
   \<and> (fetchManualJournalRows api4 c i st w = (Inr fr, w4)
        \<longrightarrow> (\<forall>r \<in> set (FetchResult.rows fr). lineRowOk r))
   \<and> (fetchBankTransactionRows api3 c i st w = (Inr rs3, w3)
        \<longrightarrow> (\<forall>r \<in> set rs3. lineRowOk r \<or> (\<exists>bt. r = bankSideRow bt \<and> bankSideOk bt r)))
   \<and> (\<forall>r \<in> set (resultRows (listXeroAccountTransactions fe client c i st)).
         lineRowOk r \<or> (\<exists>bt. bankSideOk bt r))"
  using fetchInvoiceRows_ok[of api1 c i st w rs1 w1]
        fetchCreditNoteRows_ok[of api2 c i st w rs2 w2]
        fetchManualJournalRows_ok[of api4 c i st w fr w4]
        fetchBankTransactionRows_ok[of api3 c i st w rs3 w3]
        resultRows_ok[of _ fe client c i st]
  by blast

theorem row_amounts_witness:
  "fetchInvoiceRows (onePage [invoiceOf ''ACCREC'' ''2024-03-15'' [lineOn ''200'' 20]])
       None None None (0, [])
     = (Inr [invoiceLineRow (invoiceOf ''ACCREC'' ''2024-03-15'' [lineOn ''200'' 20])
               (lineOn ''200'' 20)], (1, []))
   \<and> lineRowOk (invoiceLineRow (invoiceOf ''ACCREC'' ''2024-03-15'' [lineOn ''200'' 20])
                  (lineOn ''200'' 20))
   \<and> credit (invoiceLineRow (invoiceOf ''ACCREC'' ''2024-03-15'' [lineOn ''200'' 20])
               (lineOn ''200'' 20)) = Some 20
   \<and> fetchBankTransactionRows (onePage [spend100]) None None None (0, [])
       = (Inr [bankLineRow spend100 (lineOn ''400'' 100), bankSideRow spend100], (1, []))
   \<and> list_all (\<lambda>r. lineRowOk r \<or> (\<exists>bt. r = bankSideRow bt \<and> bankSideOk bt r))
        [bankLineRow spend100 (lineOn ''400'' 100), bankSideRow spend100]
   \<and> credit (bankSideRow spend100) = Some 100 \<and> gross (bankSideRow spend100) = Some 100"
proof -
  have run: "fetchInvoiceRows (onePage [invoiceOf ''ACCREC'' ''2024-03-15'' [lineOn ''200'' 20]])
       None None None (0, [])
     = (Inr [invoiceLineRow (invoiceOf ''ACCREC'' ''2024-03-15'' [lineOn ''200'' 20])
               (lineOn ''200'' 20)], (1, []))"
    by (simp add: run_defs invoiceRows_def invoiceOf_def lineOn_def lineMatchesAccount_def
          hasLength_def)
  have bank: "fetchBankTransactionRows (onePage [spend100]) None None None (0, [])
       = (Inr [bankLineRow spend100 (lineOn ''400'' 100), bankSideRow spend100], (1, []))"
    by (simp add: run_defs bankTransactionRows_def spend100_def lineMatchesAccount_def
          hasLength_def)
  note T = row_amounts [of "onePage [invoiceOf ''ACCREC'' ''2024-03-15'' [lineOn ''200'' 20]]"
         None None None "(0, [])" _ "(1, [])" _ _ _ _ _ _ "onePage [spend100]" _ "(1, [])"]
  from T run
  have a: "lineRowOk (invoiceLineRow (invoiceOf ''ACCREC'' ''2024-03-15'' [lineOn ''200'' 20])
                    (lineOn ''200'' 20))"
    by simp
  from T bank
  have b: "list_all (\<lambda>r. lineRowOk r \<or> (\<exists>bt. r = bankSideRow bt \<and> bankSideOk bt r))
        [bankLineRow spend100 (lineOn ''400'' 100), bankSideRow spend100]"
    by simp
  have c: "credit (invoiceLineRow (invoiceOf ''ACCREC'' ''2024-03-15'' [lineOn ''200'' 20])
               (lineOn ''200'' 20)) = Some 20"
    by (simp add: invoiceLineRow_def invoiceOf_def lineOn_def orEmpty_def orZero_def)
  have d: "credit (bankSideRow spend100) = Some 100 \<and> gross (bankSideRow spend100) = Some 100"
    by (simp add: bankSideRow_def spend100_def orEmpty_def orZero_def)
  from run bank a b c d show ?thesis by simp
qed

text \<open>
  C1 as stated fails on the bank side of a transaction whose total the API left out: the
  net is 100, so not zero, and neither debit nor credit is set; the gross is 0, which is
  not the net plus the tax.
\<close>

theorem bank_side_amounts_counterexample:
  "map net (rowsOrNone (fst (fetchBankTransactionRows (onePage [receiveNoTotal])
        (Some [''090'']) None None (0, [])))) = [Some 100]
   \<and> map vat (rowsOrNone (fst (fetchBankTransactionRows (onePage [receiveNoTotal])
        (Some [''090'']) None None (0, [])))) = [Some 0]
   \<and> map gross (rowsOrNone (fst (fetchBankTransactionRows (onePage [receiveNoTotal])
        (Some [''090'']) None None (0, [])))) = [Some 0]
   \<and> map debit (rowsOrNone (fst (fetchBankTransactionRows (onePage [receiveNoTotal])
        (Some [''090'']) None None (0, [])))) = [None]
   \<and> map credit (rowsOrNone (fst (fetchBankTransactionRows (onePage [receiveNoTotal])
        (Some [''090'']) None None (0, [])))) = [None]"
  by (simp add: run_defs row_defs rowsOrNone_def receiveNoTotal_def account090_def lineOn_def)

end
